theory Spec2Isabelle
  imports Complex_Main "HOL-Library.Char_ord"
begin

section \<open>The Apollo palette module (colors.ts)\<close>

text \<open>
  A JavaScript object literal with string values is an association list: the keys are
  kept in insertion order, which is the order \<open>Object.values\<close> walks them in (none of
  the keys below is an array index).
\<close>

type_synonym obj = "(string \<times> string) list"

definition BLUES_TEALS :: obj where
  "BLUES_TEALS =
    [(''DARKEST_BLUE'', ''#172038''),
     (''DARK_BLUE'', ''#253a5e''),
     (''MEDIUM_BLUE'', ''#3c5e8b''),
     (''LIGHT_BLUE'', ''#4f8fba''),
     (''BRIGHT_TEAL'', ''#73bed3''),
     (''LIGHTEST_TEAL'', ''#a4dddb'')]"

definition GREENS :: obj where
  "GREENS =
    [(''DARKEST_GREEN'', ''#19332d''),
     (''DARK_GREEN'', ''#25562e''),
     (''MEDIUM_GREEN'', ''#468232''),
     (''BRIGHT_GREEN'', ''#75a743''),
     (''LIGHT_GREEN'', ''#a8ca58''),
     (''LIGHTEST_GREEN'', ''#d0da91'')]"

definition BROWNS_ORANGES :: obj where
  "BROWNS_ORANGES =
    [(''DARKEST_BROWN'', ''#4d2b32''),
     (''DARK_BROWN'', ''#7a4841''),
     (''MEDIUM_BROWN'', ''#ad7757''),
     (''LIGHT_BROWN'', ''#c09473''),
     (''LIGHTEST_BROWN'', ''#d7b594''),
     (''CREAM'', ''#e7d5b3'')]"

definition WARM_TONES :: obj where
  "WARM_TONES =
    [(''DARKEST_WARM'', ''#341c27''),
     (''DARK_WARM'', ''#602c2c''),
     (''MEDIUM_WARM'', ''#884b2b''),
     (''BRIGHT_WARM'', ''#be772b''),
     (''LIGHT_WARM'', ''#de9e41''),
     (''LIGHTEST_WARM'', ''#e8c170'')]"

definition PURPLES_MAGENTAS :: obj where
  "PURPLES_MAGENTAS =
    [(''DARKEST_PURPLE'', ''#241527''),
     (''DARK_PURPLE'', ''#411d31''),
     (''MEDIUM_PURPLE'', ''#752438''),
     (''BRIGHT_PURPLE'', ''#a53030''),
     (''LIGHT_PURPLE'', ''#cf573c''),
     (''LIGHTEST_PURPLE'', ''#da863e'')]"

definition DEEP_PURPLES :: obj where
  "DEEP_PURPLES =
    [(''DARKEST_DEEP'', ''#1e1d39''),
     (''DARK_DEEP'', ''#402751''),
     (''MEDIUM_DEEP'', ''#7a367b''),
     (''BRIGHT_DEEP'', ''#a23e8c''),
     (''LIGHT_DEEP'', ''#c65197''),
     (''LIGHTEST_DEEP'', ''#df84a5'')]"

definition GRAYSCALE :: obj where
  "GRAYSCALE =
    [(''BLACK'', ''#090a14''),
     (''DARKEST_GRAY'', ''#10141f''),
     (''DARKER_GRAY'', ''#151d28''),
     (''DARK_GRAY'', ''#202e37''),
     (''MEDIUM_DARK_GRAY'', ''#394a50''),
     (''MEDIUM_GRAY'', ''#577277''),
     (''LIGHT_MEDIUM_GRAY'', ''#819796''),
     (''LIGHT_GRAY'', ''#a8b5b2''),
     (''LIGHTER_GRAY'', ''#c7cfcc''),
     (''WHITE'', ''#ebede9'')]"

text \<open>
  Object spread \<open>{...a, ...b}\<close>: the properties of \<open>b\<close> are assigned one by one onto a
  copy of \<open>a\<close>. Assigning an existing key overwrites its value and leaves it at its
  place; a new key goes to the end.
\<close>

fun assign :: "obj \<Rightarrow> string \<times> string \<Rightarrow> obj" where
  "assign [] kv = [kv]"
| "assign ((k', v') # rest) (k, v) =
     (if k' = k then (k', v) # rest else (k', v') # assign rest (k, v))"

definition spread :: "obj \<Rightarrow> obj \<Rightarrow> obj" where
  "spread a b = foldl assign a b"

definition APOLLO_PALETTE :: obj where
  "APOLLO_PALETTE =
     spread (spread (spread (spread (spread (spread (spread []
       BLUES_TEALS) GREENS) BROWNS_ORANGES) WARM_TONES) PURPLES_MAGENTAS) DEEP_PURPLES)
       GRAYSCALE"

text \<open>
  Property access \<open>GROUP.KEY\<close> on one of the constant groups. The groups are declared
  \<open>as const\<close>, so the TypeScript compiler rejects a key the group does not have; every
  access below names an existing key.
\<close>

definition field :: "obj \<Rightarrow> string \<Rightarrow> string" where
  "field ob k = the (map_of ob k)"

definition Object_values :: "obj \<Rightarrow> string list" where
  "Object_values ob = map snd ob"

record Background =
  bg_primary :: string
  bg_secondary :: string
  bg_tertiary :: string

record Text =
  text_primary :: string
  text_secondary :: string
  text_muted :: string

record Accents =
  acc_primary :: string
  acc_secondary :: string
  acc_warning :: string
  acc_error :: string
  acc_info :: string
  acc_success :: string

record ThemeColors =
  tc_background :: Background
  tc_text :: Text
  tc_accents :: Accents

definition DARK_THEME_COLORS :: ThemeColors where
  "DARK_THEME_COLORS =
    \<lparr> tc_background =
        \<lparr> bg_primary = field GRAYSCALE ''BLACK'',
          bg_secondary = field GRAYSCALE ''DARKEST_GRAY'',
          bg_tertiary = field GRAYSCALE ''DARKER_GRAY'' \<rparr>,
      tc_text =
        \<lparr> text_primary = field GRAYSCALE ''WHITE'',
          text_secondary = field GRAYSCALE ''LIGHTER_GRAY'',
          text_muted = field GRAYSCALE ''LIGHT_MEDIUM_GRAY'' \<rparr>,
      tc_accents =
        \<lparr> acc_primary = field BLUES_TEALS ''BRIGHT_TEAL'',
          acc_secondary = field GREENS ''LIGHT_GREEN'',
          acc_warning = field WARM_TONES ''LIGHT_WARM'',
          acc_error = field PURPLES_MAGENTAS ''LIGHT_PURPLE'',
          acc_info = field BLUES_TEALS ''LIGHT_BLUE'',
          acc_success = field GREENS ''BRIGHT_GREEN'' \<rparr> \<rparr>"

definition LIGHT_THEME_COLORS :: ThemeColors where
  "LIGHT_THEME_COLORS =
    \<lparr> tc_background =
        \<lparr> bg_primary = field GRAYSCALE ''WHITE'',
          bg_secondary = field GRAYSCALE ''LIGHTER_GRAY'',
          bg_tertiary = field GRAYSCALE ''LIGHT_GRAY'' \<rparr>,
      tc_text =
        \<lparr> text_primary = field GRAYSCALE ''BLACK'',
          text_secondary = field GRAYSCALE ''DARKER_GRAY'',
          text_muted = field GRAYSCALE ''MEDIUM_DARK_GRAY'' \<rparr>,
      tc_accents =
        \<lparr> acc_primary = field BLUES_TEALS ''BRIGHT_TEAL'',
          acc_secondary = field GREENS ''LIGHT_GREEN'',
          acc_warning = field WARM_TONES ''LIGHT_WARM'',
          acc_error = field PURPLES_MAGENTAS ''LIGHT_PURPLE'',
          acc_info = field BLUES_TEALS ''LIGHT_BLUE'',
          acc_success = field GREENS ''BRIGHT_GREEN'' \<rparr> \<rparr>"

definition getThemeColors :: "bool \<Rightarrow> ThemeColors" where
  "getThemeColors isDark = (if isDark then DARK_THEME_COLORS else LIGHT_THEME_COLORS)"

definition getSyntaxColors :: "bool \<Rightarrow> obj" where
  "getSyntaxColors isDark =
    [(''keyword'', if isDark then field BLUES_TEALS ''LIGHT_BLUE'' else field BLUES_TEALS ''MEDIUM_BLUE''),
     (''string'', if isDark then field GREENS ''LIGHT_GREEN'' else field GREENS ''MEDIUM_GREEN''),
     (''comment'', if isDark then field GRAYSCALE ''MEDIUM_GRAY'' else field GRAYSCALE ''MEDIUM_DARK_GRAY''),
     (''variable'', if isDark then field BLUES_TEALS ''LIGHTEST_TEAL'' else field BLUES_TEALS ''DARK_BLUE''),
     (''function'', if isDark then field WARM_TONES ''LIGHTEST_WARM'' else field WARM_TONES ''MEDIUM_WARM''),
     (''class'', if isDark then field PURPLES_MAGENTAS ''LIGHTEST_PURPLE'' else field PURPLES_MAGENTAS ''MEDIUM_PURPLE''),
     (''operator'', if isDark then field GRAYSCALE ''LIGHT_GRAY'' else field GRAYSCALE ''DARK_GRAY''),
     (''number'', if isDark then field DEEP_PURPLES ''LIGHT_DEEP'' else field DEEP_PURPLES ''MEDIUM_DEEP''),
     (''boolean'', if isDark then field DEEP_PURPLES ''LIGHTEST_DEEP'' else field DEEP_PURPLES ''BRIGHT_DEEP''),
     (''type'', if isDark then field BROWNS_ORANGES ''LIGHTEST_BROWN'' else field BROWNS_ORANGES ''MEDIUM_BROWN''),
     (''constant'', if isDark then field WARM_TONES ''LIGHT_WARM'' else field WARM_TONES ''BRIGHT_WARM'')]"

definition getWorkbenchColors :: "bool \<Rightarrow> obj" where
  "getWorkbenchColors isDark =
    (let theme = getThemeColors isDark in
     [(''editor.background'', bg_primary (tc_background theme)),
      (''editor.foreground'', text_primary (tc_text theme)),
      (''editor.selectionBackground'',
         if isDark then field BLUES_TEALS ''DARK_BLUE'' else field BLUES_TEALS ''LIGHTEST_TEAL''),
      (''editor.lineHighlightBackground'', bg_secondary (tc_background theme)),
      (''editor.findMatchBackground'', acc_warning (tc_accents theme)),
      (''editor.findMatchHighlightBackground'',
         if isDark then field WARM_TONES ''DARK_WARM'' else field WARM_TONES ''LIGHTEST_WARM''),
      (''sideBar.background'', bg_secondary (tc_background theme)),
      (''sideBar.foreground'', text_secondary (tc_text theme)),
      (''sideBar.border'', bg_tertiary (tc_background theme)),
      (''activityBar.background'', bg_tertiary (tc_background theme)),
      (''activityBar.foreground'', text_primary (tc_text theme)),
      (''activityBar.activeBorder'', acc_primary (tc_accents theme)),
      (''statusBar.background'', bg_tertiary (tc_background theme)),
      (''statusBar.foreground'', text_primary (tc_text theme)),
      (''statusBar.noFolderBackground'', bg_secondary (tc_background theme)),
      (''tab.activeBackground'', bg_primary (tc_background theme)),
      (''tab.inactiveBackground'', bg_secondary (tc_background theme)),
      (''tab.activeForeground'', text_primary (tc_text theme)),
      (''tab.inactiveForeground'', text_muted (tc_text theme)),
      (''tab.border'', bg_tertiary (tc_background theme)),
      (''panel.background'', bg_secondary (tc_background theme)),
      (''panel.border'', bg_tertiary (tc_background theme)),
      (''panelTitle.activeForeground'', text_primary (tc_text theme)),
      (''panelTitle.inactiveForeground'', text_muted (tc_text theme)),
      (''terminal.background'', bg_primary (tc_background theme)),
      (''terminal.foreground'', text_primary (tc_text theme)),
      (''terminal.ansiBlack'', field GRAYSCALE ''BLACK''),
      (''terminal.ansiRed'', acc_error (tc_accents theme)),
      (''terminal.ansiGreen'', acc_success (tc_accents theme)),
      (''terminal.ansiYellow'', acc_warning (tc_accents theme)),
      (''terminal.ansiBlue'', acc_info (tc_accents theme)),
      (''terminal.ansiMagenta'',
         if isDark then field DEEP_PURPLES ''LIGHT_DEEP'' else field DEEP_PURPLES ''MEDIUM_DEEP''),
      (''terminal.ansiCyan'', acc_primary (tc_accents theme)),
      (''terminal.ansiWhite'', field GRAYSCALE ''WHITE'')])"

definition getColorsFromGroup :: "obj \<Rightarrow> string list" where
  "getColorsFromGroup grp = Object_values grp"

definition getAllApolloColors :: "string list" where
  "getAllApolloColors = Object_values APOLLO_PALETTE"

text \<open>
  \<open>Array.prototype.includes\<close> walks the array and compares each element with the
  value (on strings: equality of the strings).
\<close>

fun Array_includes :: "'a list \<Rightarrow> 'a \<Rightarrow> bool" where
  "Array_includes [] x = False"
| "Array_includes (y # ys) x = (y = x \<or> Array_includes ys x)"

definition isApolloColor :: "string \<Rightarrow> bool" where
  "isApolloColor color = Array_includes getAllApolloColors color"

text \<open>The strings stored in a \<open>ThemeColors\<close> value, field by field.\<close>

definition ThemeColors_values :: "ThemeColors \<Rightarrow> string list" where
  "ThemeColors_values t =
    [bg_primary (tc_background t), bg_secondary (tc_background t), bg_tertiary (tc_background t),
     text_primary (tc_text t), text_secondary (tc_text t), text_muted (tc_text t),
     acc_primary (tc_accents t), acc_secondary (tc_accents t), acc_warning (tc_accents t),
     acc_error (tc_accents t), acc_info (tc_accents t), acc_success (tc_accents t)]"

section \<open>The JavaScript the validation scripts rely on\<close>

subsection \<open>Strings\<close>

text \<open>
  A JavaScript string is a sequence of 16-bit code units; \<open>string\<close> holds the code
  units below 256, which covers every character the functions below tell apart.
  \<open>s.slice(b, e)\<close> with literal bounds \<open>0 \<le> b \<le> e\<close> keeps the code units at the
  positions \<open>b, ..., e - 1\<close> that exist; it never fails.
\<close>

definition String_slice :: "string \<Rightarrow> nat \<Rightarrow> nat \<Rightarrow> string" where
  "String_slice s b e = take (e - b) (drop b s)"

text \<open>\<open>s.includes(t)\<close>: \<open>t\<close> occurs in \<open>s\<close> as a contiguous run.\<close>

fun String_includes :: "string \<Rightarrow> string \<Rightarrow> bool" where
  "String_includes [] t = (t = [])"
| "String_includes (c # s) t = (take (length t) (c # s) = t \<or> String_includes s t)"

subsection \<open>Regular expressions\<close>

text \<open>
  The fragment of regular expressions the scripts use: a literal character, a character
  class given by ranges, concatenation, a counted repetition \<open>r{n}\<close> and an optional
  group \<open>(r)?\<close>. \<open>matches r s\<close> lists what can be left of \<open>s\<close> once a prefix of it has
  matched \<open>r\<close>.
\<close>

datatype regex =
    Lit char
  | Class "(char \<times> char) list"
  | Seq regex regex
  | Times nat regex
  | Opt regex

fun in_class :: "(char \<times> char) list \<Rightarrow> char \<Rightarrow> bool" where
  "in_class [] c = False"
| "in_class ((lo, hi) # rs) c = ((lo \<le> c \<and> c \<le> hi) \<or> in_class rs c)"

fun iterate :: "nat \<Rightarrow> (string \<Rightarrow> string list) \<Rightarrow> string \<Rightarrow> string list" where
  "iterate 0 f s = [s]"
| "iterate (Suc n) f s = concat (map (iterate n f) (f s))"

fun matches :: "regex \<Rightarrow> string \<Rightarrow> string list" where
  "matches (Lit c) s = (case s of [] \<Rightarrow> [] | x # xs \<Rightarrow> if x = c then [xs] else [])"
| "matches (Class rs) s = (case s of [] \<Rightarrow> [] | x # xs \<Rightarrow> if in_class rs x then [xs] else [])"
| "matches (Seq r1 r2) s = concat (map (matches r2) (matches r1 s))"
| "matches (Times n r) s = iterate n (matches r) s"
| "matches (Opt r) s = matches r s @ [s]"

text \<open>
  \<open>/^r$/.test(s)\<close>: without the \<open>m\<close> flag, \<open>^\<close> and \<open>$\<close> are the two ends of the input,
  so the whole of \<open>s\<close> has to match.
\<close>

definition RegExp_test :: "regex \<Rightarrow> string \<Rightarrow> bool" where
  "RegExp_test r s = ([] \<in> set (matches r s))"

subsection \<open>Numbers\<close>

text \<open>
  A JavaScript number is modelled as a real number, one of the two infinities, or
  \<open>NaN\<close>. Rounding to the nearest double and overflow are not modelled: the arithmetic
  on finite numbers is exact. \<open>NaN\<close> spreads through the arithmetic and makes every
  comparison false. A zero is the positive zero: the one division whose divisor is not
  a literal divides by a sum \<open>x + 0.05\<close>, which is \<open>+0\<close> when it is zero. (Lemma
  \<open>contrast_divisor_positive\<close> below shows that this divisor is never zero when the
  colours are strings.)
\<close>

datatype jsnum = NaN | Num real | Infinity | NegInfinity

fun js_add :: "jsnum \<Rightarrow> jsnum \<Rightarrow> jsnum" where
  "js_add (Num a) (Num b) = Num (a + b)"
| "js_add NaN _ = NaN"
| "js_add _ NaN = NaN"
| "js_add Infinity NegInfinity = NaN"
| "js_add NegInfinity Infinity = NaN"
| "js_add Infinity _ = Infinity"
| "js_add _ Infinity = Infinity"
| "js_add NegInfinity _ = NegInfinity"
| "js_add _ NegInfinity = NegInfinity"

fun js_neg :: "jsnum \<Rightarrow> jsnum" where
  "js_neg (Num a) = Num (- a)"
| "js_neg NaN = NaN"
| "js_neg Infinity = NegInfinity"
| "js_neg NegInfinity = Infinity"

text \<open>The sign of a number that is not \<open>NaN\<close>: 1, 0 or -1.\<close>

fun js_sign :: "jsnum \<Rightarrow> int" where
  "js_sign (Num a) = (if a > 0 then 1 else if a < 0 then - 1 else 0)"
| "js_sign Infinity = 1"
| "js_sign NegInfinity = - 1"
| "js_sign NaN = 0"

fun js_mul :: "jsnum \<Rightarrow> jsnum \<Rightarrow> jsnum" where
  "js_mul (Num a) (Num b) = Num (a * b)"
| "js_mul NaN _ = NaN"
| "js_mul _ NaN = NaN"
| "js_mul a b =
     (if js_sign a * js_sign b > 0 then Infinity
      else if js_sign a * js_sign b < 0 then NegInfinity
      else NaN)"

fun js_div :: "jsnum \<Rightarrow> jsnum \<Rightarrow> jsnum" where
  "js_div (Num a) (Num b) =
     (if b \<noteq> 0 then Num (a / b)
      else if a > 0 then Infinity else if a < 0 then NegInfinity else NaN)"
| "js_div NaN _ = NaN"
| "js_div _ NaN = NaN"
| "js_div (Num a) _ = Num 0"
| "js_div Infinity (Num b) = (if b \<ge> 0 then Infinity else NegInfinity)"
| "js_div NegInfinity (Num b) = (if b \<ge> 0 then NegInfinity else Infinity)"
| "js_div _ _ = NaN"

fun js_le :: "jsnum \<Rightarrow> jsnum \<Rightarrow> bool" where
  "js_le (Num a) (Num b) = (a \<le> b)"
| "js_le NaN _ = False"
| "js_le _ NaN = False"
| "js_le NegInfinity _ = True"
| "js_le _ Infinity = True"
| "js_le _ _ = False"

definition js_ge :: "jsnum \<Rightarrow> jsnum \<Rightarrow> bool" where
  "js_ge a b = js_le b a"

fun js_lt :: "jsnum \<Rightarrow> jsnum \<Rightarrow> bool" where
  "js_lt (Num a) (Num b) = (a < b)"
| "js_lt NaN _ = False"
| "js_lt _ NaN = False"
| "js_lt NegInfinity NegInfinity = False"
| "js_lt Infinity Infinity = False"
| "js_lt NegInfinity _ = True"
| "js_lt _ Infinity = True"
| "js_lt _ _ = False"

fun Math_max :: "jsnum \<Rightarrow> jsnum \<Rightarrow> jsnum" where
  "Math_max (Num a) (Num b) = Num (max a b)"
| "Math_max NaN _ = NaN"
| "Math_max _ NaN = NaN"
| "Math_max Infinity _ = Infinity"
| "Math_max _ Infinity = Infinity"
| "Math_max NegInfinity b = b"
| "Math_max a NegInfinity = a"

fun Math_min :: "jsnum \<Rightarrow> jsnum \<Rightarrow> jsnum" where
  "Math_min (Num a) (Num b) = Num (min a b)"
| "Math_min NaN _ = NaN"
| "Math_min _ NaN = NaN"
| "Math_min NegInfinity _ = NegInfinity"
| "Math_min _ NegInfinity = NegInfinity"
| "Math_min Infinity b = b"
| "Math_min a Infinity = a"

text \<open>
  \<open>Math.pow(x, y)\<close> for an exponent \<open>y\<close> that is positive and not an integer, as the
  literal 2.4 of every call is: \<open>NaN\<close> for a base that is \<open>NaN\<close> or negative and finite,
  \<open>Infinity\<close> for an infinite base.
\<close>

fun Math_pow :: "jsnum \<Rightarrow> real \<Rightarrow> jsnum" where
  "Math_pow (Num x) y = (if x < 0 then NaN else Num (x powr y))"
| "Math_pow NaN y = NaN"
| "Math_pow Infinity y = Infinity"
| "Math_pow NegInfinity y = Infinity"

subsection \<open>\<open>parseInt(s, 16)\<close>\<close>

text \<open>
  \<open>parseInt\<close> skips leading white space, reads an optional sign, drops a prefix \<open>0x\<close>
  or \<open>0X\<close> (the radix is 16), and reads the longest run of hexadecimal digits that
  follows; what comes after is ignored. With no digit at all the result is \<open>NaN\<close>.
\<close>

definition is_white_space :: "char \<Rightarrow> bool" where
  "is_white_space c = ((of_char c :: nat) \<in> set [0x09, 0x0A, 0x0B, 0x0C, 0x0D, 0x20, 0xA0])"

definition digit16 :: "char \<Rightarrow> nat option" where
  "digit16 c =
     (if CHR ''0'' \<le> c \<and> c \<le> CHR ''9'' then Some (of_char c - 48)
      else if CHR ''a'' \<le> c \<and> c \<le> CHR ''f'' then Some (of_char c - 87)
      else if CHR ''A'' \<le> c \<and> c \<le> CHR ''F'' then Some (of_char c - 55)
      else None)"

definition value16 :: "string \<Rightarrow> nat" where
  "value16 ds = foldl (\<lambda>acc d. 16 * acc + the (digit16 d)) 0 ds"

definition parseInt16 :: "string \<Rightarrow> jsnum" where
  "parseInt16 s =
     (let s1 = dropWhile is_white_space s;
          negative = (case s1 of c # _ \<Rightarrow> c = CHR ''-'' | [] \<Rightarrow> False);
          s2 = (case s1 of c # rest \<Rightarrow> if c = CHR ''+'' \<or> c = CHR ''-'' then rest else s1
                | [] \<Rightarrow> s1);
          s3 = (if take 2 s2 = ''0x'' \<or> take 2 s2 = ''0X'' then drop 2 s2 else s2);
          z = takeWhile (\<lambda>c. digit16 c \<noteq> None) s3
      in if z = [] then NaN
         else Num (if negative then - real (value16 z) else real (value16 z)))"

section \<open>The colour helpers of the validation scripts\<close>

text \<open>
  \<open>isValidHexColor\<close> (colors.ts and test-light-validation.js, the same body):
  \<open>/^#[0-9A-Fa-f]{6}$/.test(color)\<close>.
\<close>

definition hex_class :: regex where
  "hex_class = Class [(CHR ''0'', CHR ''9''), (CHR ''A'', CHR ''F''), (CHR ''a'', CHR ''f'')]"

definition isValidHexColor :: "string \<Rightarrow> bool" where
  "isValidHexColor color = RegExp_test (Seq (Lit CHR ''#'') (Times 6 hex_class)) color"

text \<open>
  \<open>isValidColor\<close> (test-semantic-validation.js):
  \<open>/^#[0-9A-Fa-f]{6}([0-9A-Fa-f]{2})?$/.test(color)\<close>.
\<close>

definition isValidColor :: "string \<Rightarrow> bool" where
  "isValidColor color =
     RegExp_test (Seq (Seq (Lit CHR ''#'') (Times 6 hex_class)) (Opt (Times 2 hex_class))) color"

text \<open>
  \<open>calculateLuminance\<close> as test-colors.js and the final test script have it (the two
  bodies are the same).
\<close>

definition calculateLuminance :: "string \<Rightarrow> jsnum" where
  "calculateLuminance hexColor =
     (let r = js_div (parseInt16 (String_slice hexColor 1 3)) (Num 255);
          g = js_div (parseInt16 (String_slice hexColor 3 5)) (Num 255);
          b = js_div (parseInt16 (String_slice hexColor 5 7)) (Num 255);
          rLinear = (if js_le r (Num 0.03928) then js_div r (Num 12.92)
                     else Math_pow (js_div (js_add r (Num 0.055)) (Num 1.055)) 2.4);
          gLinear = (if js_le g (Num 0.03928) then js_div g (Num 12.92)
                     else Math_pow (js_div (js_add g (Num 0.055)) (Num 1.055)) 2.4);
          bLinear = (if js_le b (Num 0.03928) then js_div b (Num 12.92)
                     else Math_pow (js_div (js_add b (Num 0.055)) (Num 1.055)) 2.4)
      in js_add (js_add (js_mul (Num 0.2126) rLinear) (js_mul (Num 0.7152) gLinear))
           (js_mul (Num 0.0722) bLinear))"

text \<open>
  The method \<open>calculateLuminance\<close> of the semantic validator
  (test-semantic-validation.js) first cuts an alpha channel off.
\<close>

definition validator_calculateLuminance :: "string \<Rightarrow> jsnum" where
  "validator_calculateLuminance hexColor =
     (let hex = String_slice hexColor 0 7;
          r = js_div (parseInt16 (String_slice hex 1 3)) (Num 255);
          g = js_div (parseInt16 (String_slice hex 3 5)) (Num 255);
          b = js_div (parseInt16 (String_slice hex 5 7)) (Num 255);
          rLinear = (if js_le r (Num 0.03928) then js_div r (Num 12.92)
                     else Math_pow (js_div (js_add r (Num 0.055)) (Num 1.055)) 2.4);
          gLinear = (if js_le g (Num 0.03928) then js_div g (Num 12.92)
                     else Math_pow (js_div (js_add g (Num 0.055)) (Num 1.055)) 2.4);
          bLinear = (if js_le b (Num 0.03928) then js_div b (Num 12.92)
                     else Math_pow (js_div (js_add b (Num 0.055)) (Num 1.055)) 2.4)
      in js_add (js_add (js_mul (Num 0.2126) rLinear) (js_mul (Num 0.7152) gLinear))
           (js_mul (Num 0.0722) bLinear))"

definition calculateContrastRatio :: "string \<Rightarrow> string \<Rightarrow> jsnum" where
  "calculateContrastRatio color1 color2 =
     (let luminance1 = validator_calculateLuminance color1;
          luminance2 = validator_calculateLuminance color2;
          lighter = Math_max luminance1 luminance2;
          darker = Math_min luminance1 luminance2
      in js_div (js_add lighter (Num 0.05)) (js_add darker (Num 0.05)))"

text \<open>
  The expression \<open>(Math.max(a, b) + 0.05) / (Math.min(a, b) + 0.05)\<close> that
  \<open>analyzeContrast\<close> and \<open>runFinalTest\<close> write out in place, on two luminances.
\<close>

definition inline_contrast :: "jsnum \<Rightarrow> jsnum \<Rightarrow> jsnum" where
  "inline_contrast bgLuminance colorLuminance =
     js_div (js_add (Math_max bgLuminance colorLuminance) (Num 0.05))
            (js_add (Math_min bgLuminance colorLuminance) (Num 0.05))"

text \<open>\<open>getContrastLevel\<close> (test-colors.js and the final test script, the same body).\<close>

definition getContrastLevel :: "jsnum \<Rightarrow> string" where
  "getContrastLevel ratio =
     (if js_ge ratio (Num 7) then ''AAA''
      else if js_ge ratio (Num 4.5) then ''AA''
      else if js_ge ratio (Num 3) then ''AA Large''
      else ''Fail'')"

section \<open>The formulas as the specification words them\<close>

text \<open>
  An 8-bit sRGB channel \<open>c\<close> to linear light: \<open>c' = c/255\<close>; \<open>c'/12.92\<close> if
  \<open>c' \<le> 0.03928\<close>, else \<open>((c' + 0.055)/1.055)^2.4\<close>.
\<close>

definition spec_linear :: "nat \<Rightarrow> real" where
  "spec_linear c =
     (let c' = real c / 255
      in if c' \<le> 0.03928 then c' / 12.92 else ((c' + 0.055) / 1.055) powr 2.4)"

definition spec_luminance :: "nat \<Rightarrow> nat \<Rightarrow> nat \<Rightarrow> real" where
  "spec_luminance R G B =
     0.2126 * spec_linear R + 0.7152 * spec_linear G + 0.0722 * spec_linear B"

definition spec_contrast :: "real \<Rightarrow> real \<Rightarrow> real" where
  "spec_contrast L1 L2 = (max L1 L2 + 0.05) / (min L1 L2 + 0.05)"

text \<open>
  The hexadecimal digits \<open>0-9, a-f, A-F\<close>, the value of one, and the channel that two
  of them write.
\<close>

definition is_hex_digit :: "char \<Rightarrow> bool" where
  "is_hex_digit c = (c \<in> set ''0123456789abcdefABCDEF'')"

definition hex_digit_value :: "char \<Rightarrow> nat" where
  "hex_digit_value c =
     (case map_of
        [(CHR ''0'', 0), (CHR ''1'', 1), (CHR ''2'', 2), (CHR ''3'', 3), (CHR ''4'', 4),
         (CHR ''5'', 5), (CHR ''6'', 6), (CHR ''7'', 7), (CHR ''8'', 8), (CHR ''9'', 9),
         (CHR ''a'', 10), (CHR ''b'', 11), (CHR ''c'', 12), (CHR ''d'', 13), (CHR ''e'', 14),
         (CHR ''f'', 15),
         (CHR ''A'', 10), (CHR ''B'', 11), (CHR ''C'', 12), (CHR ''D'', 13), (CHR ''E'', 14),
         (CHR ''F'', 15)] c of
        Some v \<Rightarrow> v | None \<Rightarrow> 0)"

definition channel :: "string \<Rightarrow> nat \<Rightarrow> nat" where
  "channel s i = 16 * hex_digit_value (s ! i) + hex_digit_value (s ! Suc i)"

text \<open>A number that is \<open>NaN\<close> or not below a bound: how the lower bounds below are said.\<close>

fun nan_or_at_least :: "real \<Rightarrow> jsnum \<Rightarrow> bool" where
  "nan_or_at_least lo NaN = True"
| "nan_or_at_least lo (Num v) = (lo \<le> v)"
| "nan_or_at_least lo _ = False"


section \<open>Parsed JSON and the platform\<close>

text \<open>
  What \<open>JSON.parse\<close> returns. The keys of an object are distinct (a repeated key
  overwrites). A value the scripts read out of parsed JSON can also be \<open>undefined\<close>:
  such a value is a \<open>json option\<close>, \<open>None\<close> for \<open>undefined\<close>.
\<close>

datatype json =
    JNull
  | JBool bool
  | JNumber real
  | JString string
  | JArray "json list"
  | JObject "(string \<times> json) list"

text \<open>
  A thrown exception, with its \<open>message\<close>. The wording of the messages the engine
  itself produces (the type errors below) is the engine's; nothing depends on it.
\<close>

datatype js_error = JsError (message: string)

text \<open>
  Reading a property \<open>v.k\<close> or \<open>v[k]\<close>, for the keys the scripts read (none of them is
  a property that objects, arrays, strings, numbers or booleans inherit): a type error
  on \<open>undefined\<close> and \<open>null\<close>, the stored value on an object that has the key, and
  \<open>undefined\<close> otherwise.
\<close>

fun get :: "json option \<Rightarrow> string \<Rightarrow> js_error + json option" where
  "get None k =
     Inl (JsError (''Cannot read properties of undefined (reading '' @ k @ '')''))"
| "get (Some JNull) k =
     Inl (JsError (''Cannot read properties of null (reading '' @ k @ '')''))"
| "get (Some (JObject kvs)) k = Inr (map_of kvs k)"
| "get (Some _) k = Inr None"

text \<open>
  What counts as true in a condition: everything but \<open>undefined\<close>, \<open>null\<close>, \<open>false\<close>,
  zero and the empty string.
\<close>

fun truthy :: "json option \<Rightarrow> bool" where
  "truthy None = False"
| "truthy (Some JNull) = False"
| "truthy (Some (JBool b)) = b"
| "truthy (Some (JNumber x)) = (x \<noteq> 0)"
| "truthy (Some (JString s)) = (s \<noteq> [])"
| "truthy (Some (JArray _)) = True"
| "truthy (Some (JObject _)) = True"

text \<open>
  The platform under the scripts: the directory of the script, the path functions of
  Node.js, the file system as the script finds it, the JSON parser, and the engine's
  conversion of a value that is not a string to a string (which can throw). They are
  parameters of the model.
\<close>

record env =
  dirname :: string
  path_join :: "string \<Rightarrow> string \<Rightarrow> string"
  path_resolve :: "string \<Rightarrow> string \<Rightarrow> string"
  existsSync :: "string \<Rightarrow> bool"
  readFileSync :: "string \<Rightarrow> js_error + string"
  JSON_parse :: "string \<Rightarrow> js_error + json"
  ToString :: "json \<Rightarrow> js_error + string"

section \<open>The cross-platform test: \<open>testPathSeparators\<close>\<close>

text \<open>
  The two variables of the function, \<open>passed\<close> and \<open>issues\<close>, are its state and, at the
  end, the object it returns.
\<close>

record result =
  passed :: bool
  issues :: "string list"

text \<open>
  A step of the \<open>try\<close> block ends with the state it has reached and, when it threw, the
  exception: what was pushed onto \<open>issues\<close> before a throw stays there.
\<close>

type_synonym 'st step = "js_error option \<times> 'st"

fun forEach :: "('a \<Rightarrow> 'st \<Rightarrow> 'st step) \<Rightarrow> 'a list \<Rightarrow> 'st \<Rightarrow> 'st step" where
  "forEach f [] st = (None, st)"
| "forEach f (x # xs) st =
     (case f x st of
        (None, st') \<Rightarrow> forEach f xs st'
      | (Some e, st') \<Rightarrow> (Some e, st'))"

definition backslash :: char where
  "backslash = CHR 0x5C"

definition themeFiles :: "string list" where
  "themeFiles =
     [''themes/apollo-dark-color-theme.json'', ''themes/apollo-light-color-theme.json'']"

text \<open>
  The callback of \<open>packageData.contributes.themes.forEach\<close>. The string literal
  \<open>'\\\\'\<close> of the source is two backslash characters. A \<open>theme.path\<close> that is true in a
  condition but is no string: an array has \<open>includes\<close> (it looks for an element), and
  \<open>path.resolve\<close> then rejects it with a type error; any other value has no
  \<open>includes\<close> to call.
\<close>

definition check_theme :: "env \<Rightarrow> json \<Rightarrow> result \<Rightarrow> result step" where
  "check_theme E theme st =
     (case get (Some theme) ''path'' of
        Inl e \<Rightarrow> (Some e, st)
      | Inr p \<Rightarrow>
          if \<not> truthy p then (None, st)
          else
            (case p of
               Some (JString path) \<Rightarrow>
                 (let st1 =
                        (if String_includes path [backslash, backslash]
                         then \<lparr> passed = False,
                                issues = issues st
                                  @ [''Windows-style path separators found: '' @ path] \<rparr>
                         else st);
                      resolvedPath = path_resolve E (dirname E) path;
                      st2 =
                        (if \<not> existsSync E resolvedPath
                         then \<lparr> passed = False,
                                issues = issues st1
                                  @ [''Theme file not found at resolved path: ''
                                       @ resolvedPath] \<rparr>
                         else st1)
                  in (None, st2))
             | Some (JArray xs) \<Rightarrow>
                 (if Array_includes xs (JString [backslash, backslash])
                  then
                    (case ToString E (JArray xs) of
                       Inl e \<Rightarrow> (Some e, st)
                     | Inr t \<Rightarrow>
                         (Some (JsError ''The paths[1] argument must be of type string''),
                          \<lparr> passed = False,
                            issues = issues st
                              @ [''Windows-style path separators found: '' @ t] \<rparr>))
                  else (Some (JsError ''The paths[1] argument must be of type string''), st))
             | _ \<Rightarrow> (Some (JsError ''theme.path.includes is not a function''), st)))"

text \<open>The callback of \<open>this.themeFiles.forEach\<close>; it cannot throw.\<close>

definition check_theme_file :: "env \<Rightarrow> string \<Rightarrow> result \<Rightarrow> result" where
  "check_theme_file E themeFile st =
     (let fullPath = path_join E (dirname E) themeFile
      in if \<not> existsSync E fullPath
         then \<lparr> passed = False,
                issues = issues st @ [''Theme file not accessible: '' @ themeFile] \<rparr>
         else st)"

text \<open>The part of the \<open>try\<close> block that reads package.json, once the file exists.\<close>

definition check_package :: "env \<Rightarrow> string \<Rightarrow> result \<Rightarrow> result step" where
  "check_package E packagePath st =
     (case readFileSync E packagePath of
        Inl e \<Rightarrow> (Some e, st)
      | Inr content \<Rightarrow>
     (case JSON_parse E content of
        Inl e \<Rightarrow> (Some e, st)
      | Inr packageData \<Rightarrow>
     (case get (Some packageData) ''contributes'' of
        Inl e \<Rightarrow> (Some e, st)
      | Inr contributes \<Rightarrow>
          if \<not> truthy contributes then (None, st)
          else
     (case get contributes ''themes'' of
        Inl e \<Rightarrow> (Some e, st)
      | Inr themes \<Rightarrow>
          if \<not> truthy themes then (None, st)
          else
            (case themes of
               Some (JArray ts) \<Rightarrow> forEach (check_theme E) ts st
             | _ \<Rightarrow>
                 (Some (JsError ''packageData.contributes.themes.forEach is not a function''),
                  st))))))"

definition testPathSeparators_try :: "env \<Rightarrow> result \<Rightarrow> result step" where
  "testPathSeparators_try E st =
     (let packagePath = path_join E (dirname E) ''package.json''
      in case (if existsSync E packagePath then check_package E packagePath st
               else (None, st)) of
           (Some e, st1) \<Rightarrow> (Some e, st1)
         | (None, st1) \<Rightarrow> (None, foldl (\<lambda>s f. check_theme_file E f s) st1 themeFiles))"

definition testPathSeparators :: "env \<Rightarrow> result" where
  "testPathSeparators E =
     (case testPathSeparators_try E \<lparr> passed = True, issues = [] \<rparr> of
        (None, st) \<Rightarrow> st
      | (Some error, st) \<Rightarrow>
          \<lparr> passed = False,
            issues = issues st @ [''Path separator test failed: '' @ message error] \<rparr>)"

text \<open>
  The words of the claim about \<open>testPathSeparators\<close>: the theme paths package.json lists
  (the non-empty strings stored under \<open>path\<close> in the entries of
  \<open>contributes.themes\<close>), when the file is there and parses.
\<close>

definition entry_paths :: "json \<Rightarrow> string list" where
  "entry_paths theme =
     (case theme of
        JObject kvs \<Rightarrow>
          (case map_of kvs ''path'' of
             Some (JString p) \<Rightarrow> if p \<noteq> [] then [p] else []
           | _ \<Rightarrow> [])
      | _ \<Rightarrow> [])"

definition package_paths :: "json \<Rightarrow> string list" where
  "package_paths packageData =
     (case packageData of
        JObject kvs \<Rightarrow>
          (case map_of kvs ''contributes'' of
             Some (JObject cs) \<Rightarrow>
               (case map_of cs ''themes'' of
                  Some (JArray ts) \<Rightarrow> concat (map entry_paths ts)
                | _ \<Rightarrow> [])
           | _ \<Rightarrow> [])
      | _ \<Rightarrow> [])"

definition listed_paths :: "env \<Rightarrow> string list" where
  "listed_paths E =
     (let packagePath = path_join E (dirname E) ''package.json''
      in if existsSync E packagePath
         then (case readFileSync E packagePath of
                 Inl e \<Rightarrow> []
               | Inr content \<Rightarrow>
                   (case JSON_parse E content of
                      Inl e \<Rightarrow> []
                    | Inr packageData \<Rightarrow> package_paths packageData))
         else [])"

text \<open>
  What the loop over the listed paths asks of a path, and what the loop over
  \<open>themeFiles\<close> asks of the file system.
\<close>

definition path_ok :: "env \<Rightarrow> string \<Rightarrow> bool" where
  "path_ok E p =
     (\<not> String_includes p [backslash, backslash]
      \<and> existsSync E (path_resolve E (dirname E) p))"

definition files_ok :: "env \<Rightarrow> bool" where
  "files_ok E = (\<forall>f \<in> set themeFiles. existsSync E (path_join E (dirname E) f))"

text \<open>Whether the \<open>try\<close> block of \<open>testPathSeparators\<close> throws.\<close>

definition testPathSeparators_throws :: "env \<Rightarrow> bool" where
  "testPathSeparators_throws E =
     (fst (testPathSeparators_try E \<lparr> passed = True, issues = [] \<rparr>) \<noteq> None)"

text \<open>
  Two platforms to run the test on. On the first, package.json is there but is cut
  short, and the two theme files exist. On the second, a Windows machine, package.json
  lists the dark theme under \<open>themes\apollo-dark-color-theme.json\<close>, written with a
  backslash, and every file asked for exists.
\<close>

definition posix_join :: "string \<Rightarrow> string \<Rightarrow> string" where
  "posix_join a b = a @ ''/'' @ b"

definition malformed_env :: env where
  "malformed_env =
     \<lparr> dirname = ''/ext'',
       path_join = posix_join,
       path_resolve = posix_join,
       existsSync = (\<lambda>p. True),
       readFileSync = (\<lambda>p. Inr ''{ '' ),
       JSON_parse = (\<lambda>s. Inl (JsError ''Unexpected end of JSON input'')),
       ToString = (\<lambda>v. Inr []) \<rparr>"

definition windows_path :: string where
  "windows_path = ''themes'' @ [backslash] @ ''apollo-dark-color-theme.json''"

definition windows_package :: json where
  "windows_package =
     JObject [(''name'', JString ''apollo-theme''),
       (''contributes'', JObject [(''themes'', JArray
          [JObject [(''label'', JString ''Apollo Dark''), (''uiTheme'', JString ''vs-dark''),
                    (''path'', JString windows_path)]])])]"

definition windows_env :: env where
  "windows_env =
     \<lparr> dirname = ''C:/ext'',
       path_join = (\<lambda>a b. a @ [backslash] @ b),
       path_resolve = (\<lambda>a b. a @ [backslash] @ b),
       existsSync = (\<lambda>p. True),
       readFileSync = (\<lambda>p. Inr ''package''),
       JSON_parse = (\<lambda>s. Inr windows_package),
       ToString = (\<lambda>v. Inr []) \<rparr>"

text \<open>
  Two more: an installation where package.json lists both themes with forward slashes
  and every file exists, and the same installation with the \<open>themes\<close> directory gone.
\<close>

definition good_package :: json where
  "good_package =
     JObject [(''name'', JString ''apollo-theme''),
       (''contributes'', JObject [(''themes'', JArray
          [JObject [(''label'', JString ''Apollo Dark''),
                    (''path'', JString ''./themes/apollo-dark-color-theme.json'')],
           JObject [(''label'', JString ''Apollo Light''),
                    (''path'', JString ''./themes/apollo-light-color-theme.json'')]])])]"

definition good_env :: env where
  "good_env =
     \<lparr> dirname = ''/ext'',
       path_join = posix_join,
       path_resolve = posix_join,
       existsSync = (\<lambda>p. True),
       readFileSync = (\<lambda>p. Inr ''package''),
       JSON_parse = (\<lambda>s. Inr good_package),
       ToString = (\<lambda>v. Inr []) \<rparr>"

definition missing_env :: env where
  "missing_env = good_env \<lparr> existsSync := (\<lambda>p. p = ''/ext/package.json'') \<rparr>"


section \<open>The validation entry points\<close>

text \<open>
  A \<open>try\<close> block is a computation that returns a value or throws; \<open>catch\<close> hands the
  exception to a handler, which may throw as well.
\<close>

definition bind :: "js_error + 'a \<Rightarrow> ('a \<Rightarrow> js_error + 'b) \<Rightarrow> js_error + 'b" where
  "bind m f = (case m of Inl e \<Rightarrow> Inl e | Inr v \<Rightarrow> f v)"

definition try_catch :: "js_error + 'a \<Rightarrow> (js_error \<Rightarrow> js_error + 'a) \<Rightarrow> js_error + 'a" where
  "try_catch body handler = (case body of Inl error \<Rightarrow> handler error | Inr v \<Rightarrow> Inr v)"

text \<open>
  What an entry point leaves behind: the lines it wrote with \<open>console.error\<close> and the
  value it returned. The lines written with \<open>console.log\<close> are not kept; the conversions
  to a string that writing them asks of the engine are, since they can throw.
\<close>

record 'a outcome =
  stderr :: "string list"
  returned :: 'a

text \<open>
  A value put into a template literal or handed to \<open>parseInt\<close>: a string stands for
  itself, \<open>undefined\<close> reads \<open>undefined\<close>, anything else is converted by the engine.
\<close>

definition to_text :: "env \<Rightarrow> json option \<Rightarrow> js_error + string" where
  "to_text E v =
     (case v of
        None \<Rightarrow> Inr ''undefined''
      | Some (JString s) \<Rightarrow> Inr s
      | Some j \<Rightarrow> ToString E j)"

text \<open>\<open>typeof v === 'object'\<close>.\<close>

fun typeof_object :: "json option \<Rightarrow> bool" where
  "typeof_object (Some JNull) = True"
| "typeof_object (Some (JArray _)) = True"
| "typeof_object (Some (JObject _)) = True"
| "typeof_object _ = False"

text \<open>
  \<open>v.slice(b, e)\<close> as the text \<open>parseInt\<close> then reads: a piece of a string, or a piece
  of an array converted to a string. A type error for any other value, which has no
  \<open>slice\<close> to call.
\<close>

definition slice_text :: "env \<Rightarrow> json option \<Rightarrow> nat \<Rightarrow> nat \<Rightarrow> js_error + string" where
  "slice_text E v b e =
     (case v of
        None \<Rightarrow> Inl (JsError ''Cannot read properties of undefined (reading slice)'')
      | Some JNull \<Rightarrow> Inl (JsError ''Cannot read properties of null (reading slice)'')
      | Some (JString s) \<Rightarrow> Inr (String_slice s b e)
      | Some (JArray xs) \<Rightarrow> ToString E (JArray (take (e - b) (drop b xs)))
      | Some _ \<Rightarrow> Inl (JsError ''hexColor.slice is not a function''))"

subsection \<open>\<open>analyzeContrast\<close>\<close>

text \<open>
  \<open>calculateLuminance\<close> on a value read from the theme. On a string it is the function
  above. On an array the same body runs on the pieces of the array.
\<close>

definition calculateLuminance_value :: "env \<Rightarrow> json option \<Rightarrow> js_error + jsnum" where
  "calculateLuminance_value E hexColor =
     (case hexColor of
        Some (JString s) \<Rightarrow> Inr (calculateLuminance s)
      | _ \<Rightarrow>
        bind (slice_text E hexColor 1 3) (\<lambda>rt.
        bind (slice_text E hexColor 3 5) (\<lambda>gt.
        bind (slice_text E hexColor 5 7) (\<lambda>bt.
          (let r = js_div (parseInt16 rt) (Num 255);
               g = js_div (parseInt16 gt) (Num 255);
               b = js_div (parseInt16 bt) (Num 255);
               rLinear = (if js_le r (Num 0.03928) then js_div r (Num 12.92)
                          else Math_pow (js_div (js_add r (Num 0.055)) (Num 1.055)) 2.4);
               gLinear = (if js_le g (Num 0.03928) then js_div g (Num 12.92)
                          else Math_pow (js_div (js_add g (Num 0.055)) (Num 1.055)) 2.4);
               bLinear = (if js_le b (Num 0.03928) then js_div b (Num 12.92)
                          else Math_pow (js_div (js_add b (Num 0.055)) (Num 1.055)) 2.4)
           in Inr (js_add (js_add (js_mul (Num 0.2126) rLinear) (js_mul (Num 0.7152) gLinear))
                (js_mul (Num 0.0722) bLinear)))))))"

record analysis =
  color :: "json option"
  name :: "json option"
  scope :: "json option"
  luminance :: jsnum
  contrast :: jsnum
  level :: string

text \<open>The two arrays the loop over \<open>tokenColors\<close> fills.\<close>

record analysis_state =
  lowContrastColors :: "analysis list"
  colorAnalysis :: "analysis list"

definition analyze_rule :: "env \<Rightarrow> jsnum \<Rightarrow> json \<Rightarrow> analysis_state \<Rightarrow> analysis_state step" where
  "analyze_rule E bgLuminance rule st =
     (case get (Some rule) ''settings'' of
        Inl e \<Rightarrow> (Some e, st)
      | Inr settings \<Rightarrow>
          if \<not> truthy settings then (None, st)
          else
     (case get settings ''foreground'' of
        Inl e \<Rightarrow> (Some e, st)
      | Inr foreground \<Rightarrow>
          if \<not> truthy foreground then (None, st)
          else
     (case calculateLuminance_value E foreground of
        Inl e \<Rightarrow> (Some e, st)
      | Inr colorLuminance \<Rightarrow>
          (let contrastRatio = inline_contrast bgLuminance colorLuminance;
               a = \<lparr> color = foreground,
                     name = (case get (Some rule) ''name'' of Inr n \<Rightarrow> n | Inl _ \<Rightarrow> None),
                     scope = (case get (Some rule) ''scope'' of Inr s \<Rightarrow> s | Inl _ \<Rightarrow> None),
                     luminance = colorLuminance,
                     contrast = contrastRatio,
                     level = getContrastLevel contrastRatio \<rparr>;
               st1 = st \<lparr> colorAnalysis := colorAnalysis st @ [a] \<rparr>
           in (None,
               if js_lt contrastRatio (Num 3)
               then st1 \<lparr> lowContrastColors := lowContrastColors st1 @ [a] \<rparr>
               else st1)))))"

text \<open>
  Writing one entry of the report: the colour, the name or \<open>'Unnamed'\<close>, and for the
  low-contrast list also the scope, joined when it is an array. Only the conversions
  matter here.
\<close>

definition print_color_and_name :: "env \<Rightarrow> analysis \<Rightarrow> js_error + unit" where
  "print_color_and_name E item =
     bind (to_text E (color item)) (\<lambda>_.
     bind (to_text E (if truthy (name item) then name item else Some (JString ''Unnamed'')))
       (\<lambda>_. Inr ()))"

fun convert_all :: "env \<Rightarrow> json list \<Rightarrow> js_error + unit" where
  "convert_all E [] = Inr ()"
| "convert_all E (x # xs) =
     (if x = JNull then convert_all E xs
      else bind (to_text E (Some x)) (\<lambda>_. convert_all E xs))"

definition print_low_contrast :: "env \<Rightarrow> analysis \<Rightarrow> js_error + unit" where
  "print_low_contrast E item =
     bind (print_color_and_name E item) (\<lambda>_.
       (case scope item of
          Some (JArray xs) \<Rightarrow> convert_all E xs
        | s \<Rightarrow> bind (to_text E s) (\<lambda>_. Inr ())))"

fun for_each :: "('a \<Rightarrow> js_error + unit) \<Rightarrow> 'a list \<Rightarrow> js_error + unit" where
  "for_each f [] = Inr ()"
| "for_each f (x # xs) = bind (f x) (\<lambda>_. for_each f xs)"

definition light_theme_path :: "env \<Rightarrow> string" where
  "light_theme_path E =
     path_join E (path_join E (dirname E) ''themes'') ''apollo-light-color-theme.json''"

definition analyzeContrast_try :: "env \<Rightarrow> js_error + analysis list" where
  "analyzeContrast_try E =
     bind (readFileSync E (light_theme_path E)) (\<lambda>themeContent.
     bind (JSON_parse E themeContent) (\<lambda>theme.
     bind (get (Some theme) ''colors'') (\<lambda>colors.
     bind (get colors ''editor.background'') (\<lambda>backgroundColor.
     bind (calculateLuminance_value E backgroundColor) (\<lambda>bgLuminance.
     bind (to_text E backgroundColor) (\<lambda>_.
     bind (get (Some theme) ''tokenColors'') (\<lambda>tokenColors.
       (case tokenColors of
          Some (JArray rules) \<Rightarrow>
            (case forEach (analyze_rule E bgLuminance) rules
                    \<lparr> lowContrastColors = [], colorAnalysis = [] \<rparr> of
               (Some e, _) \<Rightarrow> Inl e
             | (None, st) \<Rightarrow>
                 bind (for_each (print_low_contrast E) (lowContrastColors st)) (\<lambda>_.
                 bind (for_each (print_color_and_name E) (colorAnalysis st)) (\<lambda>_.
                   Inr (lowContrastColors st))))
        | _ \<Rightarrow> Inl (JsError ''tokenColors.forEach is not a function'')))))))))"

definition analyzeContrast :: "env \<Rightarrow> js_error + (analysis list) outcome" where
  "analyzeContrast E =
     try_catch
       (bind (analyzeContrast_try E) (\<lambda>v. Inr \<lparr> stderr = [], returned = v \<rparr>))
       (\<lambda>error. Inr \<lparr> stderr = [''Error analyzing contrast: '' @ message error],
                       returned = [] \<rparr>)"

subsection \<open>\<open>validateLightThemeStructure\<close>\<close>

text \<open>
  \<open>isLightColor\<close> on a value of the theme: the three pieces go through \<open>parseInt\<close>, and
  the weighted sum divided by 255 is compared with 0.5. \<open>isDarkColor\<close> is its negation.
\<close>

definition isLightColor :: "env \<Rightarrow> json option \<Rightarrow> js_error + bool" where
  "isLightColor E hexColor =
     bind (slice_text E hexColor 1 3) (\<lambda>rt.
     bind (slice_text E hexColor 3 5) (\<lambda>gt.
     bind (slice_text E hexColor 5 7) (\<lambda>bt.
       (let r = parseInt16 rt;
            g = parseInt16 gt;
            b = parseInt16 bt;
            luminance = js_div (js_add (js_add (js_mul (Num 0.299) r) (js_mul (Num 0.587) g))
                                  (js_mul (Num 0.114) b)) (Num 255)
        in Inr (js_lt (Num 0.5) luminance)))))"

definition isDarkColor :: "env \<Rightarrow> json option \<Rightarrow> js_error + bool" where
  "isDarkColor E hexColor = bind (isLightColor E hexColor) (\<lambda>l. Inr (\<not> l))"

definition essentialScopes :: "string list" where
  "essentialScopes =
     [''comment'', ''keyword'', ''string'', ''constant.numeric'', ''variable'',
      ''entity.name.function'', ''entity.name.class'', ''entity.name.tag'']"

text \<open>
  The scopes the rules of \<open>tokenColors\<close> define, in the order they are added. (The
  script keeps them in a \<open>Set\<close>; a value added twice answers the questions below the
  same way both times.) A rule that is \<open>null\<close> makes \<open>rule.scope\<close> throw.
\<close>

fun defined_scopes :: "json list \<Rightarrow> js_error + json list" where
  "defined_scopes [] = Inr []"
| "defined_scopes (rule # rules) =
     bind (get (Some rule) ''scope'') (\<lambda>sc.
     bind (defined_scopes rules) (\<lambda>rest.
       Inr ((if truthy sc
             then (case sc of Some (JArray xs) \<Rightarrow> xs | Some j \<Rightarrow> [j] | None \<Rightarrow> [])
             else []) @ rest)))"

text \<open>
  \<open>Array.from(definedScopes).some(defined => defined.includes(key))\<close>: it stops at the
  first defined scope that includes the key, and throws at a defined scope that is
  neither a string nor an array.
\<close>

fun some_includes :: "json list \<Rightarrow> string \<Rightarrow> js_error + bool" where
  "some_includes [] key = Inr False"
| "some_includes (d # ds) key =
     (case d of
        JString s \<Rightarrow> if String_includes s key then Inr True else some_includes ds key
      | JArray xs \<Rightarrow> if Array_includes xs (JString key) then Inr True else some_includes ds key
      | _ \<Rightarrow> Inl (JsError ''defined.includes is not a function''))"

definition check_scope :: "json list \<Rightarrow> string \<Rightarrow> js_error + unit" where
  "check_scope defined sc =
     bind (some_includes defined (takeWhile (\<lambda>c. c \<noteq> CHR ''.'') sc)) (\<lambda>_. Inr ())"

text \<open>
  \<open>essentialTokens.filter(token => !theme.semanticTokenColors.hasOwnProperty(token))\<close>
  throws when the object has a key \<open>hasOwnProperty\<close> of its own, whose value JSON cannot
  make a function.
\<close>

definition hasOwnProperty_callable :: "json option \<Rightarrow> bool" where
  "hasOwnProperty_callable v =
     (case v of Some (JObject kvs) \<Rightarrow> map_of kvs ''hasOwnProperty'' = None | _ \<Rightarrow> True)"

definition validateLightThemeStructure_try :: "env \<Rightarrow> js_error + bool" where
  "validateLightThemeStructure_try E =
     bind (readFileSync E (light_theme_path E)) (\<lambda>themeContent.
     bind (JSON_parse E themeContent) (\<lambda>theme.
     bind (get (Some theme) ''name'') (\<lambda>theme_name.
     bind (to_text E theme_name) (\<lambda>_.
     bind (get (Some theme) ''type'') (\<lambda>theme_type.
     bind (to_text E theme_type) (\<lambda>_.
     bind (get (Some theme) ''semanticHighlighting'') (\<lambda>semanticHighlighting.
       if semanticHighlighting \<noteq> Some (JBool True) then Inr False
       else
     bind (get (Some theme) ''semanticTokenColors'') (\<lambda>semanticTokenColors.
       if \<not> (truthy semanticTokenColors \<and> typeof_object semanticTokenColors) then Inr False
       else if \<not> hasOwnProperty_callable semanticTokenColors
       then Inl (JsError ''theme.semanticTokenColors.hasOwnProperty is not a function'')
       else
     bind (get (Some theme) ''tokenColors'') (\<lambda>tokenColors.
       (case tokenColors of
          Some (JArray rules) \<Rightarrow>
            bind (defined_scopes rules) (\<lambda>definedScopes.
            bind (for_each (check_scope definedScopes) essentialScopes) (\<lambda>_.
            bind (get (Some theme) ''colors'') (\<lambda>colors.
              if \<not> (truthy colors \<and> typeof_object colors) then Inr False
              else
            bind (get colors ''editor.background'') (\<lambda>editorBg.
            bind (if truthy editorBg then isLightColor E editorBg else Inr False) (\<lambda>_.
            bind (get colors ''editor.foreground'') (\<lambda>editorFg.
            bind (if truthy editorFg then isDarkColor E editorFg else Inr False) (\<lambda>_.
              Inr True)))))))
        | _ \<Rightarrow> Inr False))))))))))"

definition validateLightThemeStructure :: "env \<Rightarrow> js_error + bool outcome" where
  "validateLightThemeStructure E =
     try_catch
       (bind (validateLightThemeStructure_try E) (\<lambda>v. Inr \<lparr> stderr = [], returned = v \<rparr>))
       (\<lambda>error. Inr \<lparr> stderr = [''Light theme validation failed: '' @ message error],
                       returned = False \<rparr>)"

text \<open>
  The failures the claim speaks of: the theme file cannot be read, or what was read
  does not parse.
\<close>

definition theme_unreadable :: "env \<Rightarrow> bool" where
  "theme_unreadable E =
     (case readFileSync E (light_theme_path E) of
        Inl e \<Rightarrow> True
      | Inr themeContent \<Rightarrow> (case JSON_parse E themeContent of Inl e \<Rightarrow> True | Inr _ \<Rightarrow> False))"

definition no_theme_env :: env where
  "no_theme_env =
     good_env \<lparr> readFileSync := (\<lambda>p. Inl (JsError ''ENOENT: no such file or directory'')) \<rparr>"

text \<open>A small theme that is in order, but for one white-on-white rule, and a platform that serves it.\<close>

definition small_theme :: json where
  "small_theme =
     JObject [(''name'', JString ''Apollo Light''), (''type'', JString ''light''),
       (''semanticHighlighting'', JBool True),
       (''semanticTokenColors'', JObject [(''class'', JString ''#000000'')]),
       (''colors'', JObject [(''editor.background'', JString ''#ffffff''),
                             (''editor.foreground'', JString ''#000000'')]),
       (''tokenColors'', JArray
          [JObject [(''name'', JString ''Comment''), (''scope'', JString ''comment''),
                    (''settings'', JObject [(''foreground'', JString ''#ffffff'')])],
           JObject [(''name'', JString ''Keyword''), (''scope'', JArray [JString ''keyword'']),
                    (''settings'', JObject [(''foreground'', JString ''#000000'')])],
           JObject [(''scope'', JString ''string''),
                    (''settings'', JObject [(''fontStyle'', JString ''italic'')])]])]"

definition small_env :: env where
  "small_env = good_env \<lparr> JSON_parse := (\<lambda>s. Inr small_theme) \<rparr>"


section \<open>Facts about the palette module\<close>

lemmas group_defs = BLUES_TEALS_def GREENS_def BROWNS_ORANGES_def
  WARM_TONES_def PURPLES_MAGENTAS_def DEEP_PURPLES_def GRAYSCALE_def

lemma Array_includes_set: "Array_includes xs x \<longleftrightarrow> x \<in> set xs"
  by (induction xs) auto

text \<open>The merged palette, computed: the seven groups one after the other.\<close>

lemma getAllApolloColors_eq:
  "getAllApolloColors =
    [''#172038'', ''#253a5e'', ''#3c5e8b'', ''#4f8fba'', ''#73bed3'', ''#a4dddb'',
     ''#19332d'', ''#25562e'', ''#468232'', ''#75a743'', ''#a8ca58'', ''#d0da91'',
     ''#4d2b32'', ''#7a4841'', ''#ad7757'', ''#c09473'', ''#d7b594'', ''#e7d5b3'',
     ''#341c27'', ''#602c2c'', ''#884b2b'', ''#be772b'', ''#de9e41'', ''#e8c170'',
     ''#241527'', ''#411d31'', ''#752438'', ''#a53030'', ''#cf573c'', ''#da863e'',
     ''#1e1d39'', ''#402751'', ''#7a367b'', ''#a23e8c'', ''#c65197'', ''#df84a5'',
     ''#090a14'', ''#10141f'', ''#151d28'', ''#202e37'', ''#394a50'', ''#577277'',
     ''#819796'', ''#a8b5b2'', ''#c7cfcc'', ''#ebede9'']"
  unfolding getAllApolloColors_def Object_values_def APOLLO_PALETTE_def spread_def group_defs
  by simp

lemma group_sizes:
  "map length [BLUES_TEALS, GREENS, BROWNS_ORANGES, WARM_TONES, PURPLES_MAGENTAS,
     DEEP_PURPLES, GRAYSCALE] = [6, 6, 6, 6, 6, 6, 10]"
  by (simp add: group_defs)

text \<open>
  Claim C9. \<open>getAllApolloColors\<close> returns exactly 46 strings, not 48: the seven groups
  hold 6, 6, 6, 6, 6, 6 and 10 keys, every key of every group is a key of the merged
  palette and none is lost or doubled. \<open>isApolloColor c\<close> is true exactly when \<open>c\<close> is
  one of the returned strings.
\<close>

theorem getAllApolloColors_46:
  "length getAllApolloColors = 46
   \<and> length getAllApolloColors \<noteq> 48
   \<and> map length [BLUES_TEALS, GREENS, BROWNS_ORANGES, WARM_TONES, PURPLES_MAGENTAS,
        DEEP_PURPLES, GRAYSCALE] = [6, 6, 6, 6, 6, 6, 10]
   \<and> length (map fst APOLLO_PALETTE) = 6 + 6 + 6 + 6 + 6 + 6 + 10
   \<and> (isApolloColor c \<longleftrightarrow> c \<in> set getAllApolloColors)"
proof -
  have n: "length getAllApolloColors = 46"
    by (simp add: getAllApolloColors_eq)
  have k: "length (map fst APOLLO_PALETTE) = 46"
    using n by (simp add: getAllApolloColors_def Object_values_def)
  have m: "isApolloColor c \<longleftrightarrow> c \<in> set getAllApolloColors"
    by (simp add: isApolloColor_def Array_includes_set)
  show ?thesis
    using n k m group_sizes by simp
qed

theorem getAllApolloColors_46_witness:
  "isApolloColor ''#172038'' \<and> \<not> isApolloColor ''#ffffff''"
  using getAllApolloColors_46 [of "''#172038''"] getAllApolloColors_46 [of "''#ffffff''"]
  by (simp add: getAllApolloColors_eq)

lemmas theme_defs = getThemeColors_def ThemeColors_values_def getSyntaxColors_def
  getWorkbenchColors_def DARK_THEME_COLORS_def LIGHT_THEME_COLORS_def field_def group_defs
  Object_values_def

lemma theme_helpers_dark:
  "\<forall>c \<in> set (ThemeColors_values (getThemeColors True))
       \<union> set (Object_values (getSyntaxColors True))
       \<union> set (Object_values (getWorkbenchColors True)). isApolloColor c"
  unfolding isApolloColor_def getAllApolloColors_eq
  by (simp add: theme_defs)

lemma theme_helpers_light:
  "\<forall>c \<in> set (ThemeColors_values (getThemeColors False))
       \<union> set (Object_values (getSyntaxColors False))
       \<union> set (Object_values (getWorkbenchColors False)). isApolloColor c"
  unfolding isApolloColor_def getAllApolloColors_eq
  by (simp add: theme_defs)

text \<open>
  Claim C10. Every string stored in the result of \<open>getThemeColors\<close>,
  \<open>getSyntaxColors\<close> or \<open>getWorkbenchColors\<close>, for the dark and for the light theme,
  is a colour of the palette: \<open>isApolloColor\<close> accepts it.
\<close>

theorem theme_helpers_in_palette:
  assumes "c \<in> set (ThemeColors_values (getThemeColors isDark))
             \<union> set (Object_values (getSyntaxColors isDark))
             \<union> set (Object_values (getWorkbenchColors isDark))"
  shows "isApolloColor c"
proof (cases isDark)
  case True
  then have e: "isDark = True" by simp
  show ?thesis
    using assms theme_helpers_dark unfolding e by blast
next
  case False
  then have e: "isDark = False" by simp
  show ?thesis
    using assms theme_helpers_light unfolding e by blast
qed

theorem theme_helpers_in_palette_witness:
  "''#c65197'' \<in> set (Object_values (getWorkbenchColors True)) \<and> isApolloColor ''#c65197''"
proof -
  have h: "''#c65197'' \<in> set (Object_values (getWorkbenchColors True))"
    by (simp add: theme_defs)
  from theme_helpers_in_palette [of "''#c65197''" True] h show ?thesis
    by simp
qed

section \<open>Hex colour syntax\<close>

lemma char_eq_nat: "(c::char) = d \<longleftrightarrow> (of_char c :: nat) = of_char d"
  by simp

lemma hex_range_nat:
  "(48 \<le> n \<and> n \<le> 57) \<or> (65 \<le> n \<and> n \<le> 70) \<or> (97 \<le> n \<and> n \<le> 102) \<longleftrightarrow>
   n \<in> {48,49,50,51,52,53,54,55,56,57,97,98,99,100,101,102,65,66,67,68,69,70::nat}"
  by (simp; arith)

lemma is_hex_digit_nat:
  "is_hex_digit c \<longleftrightarrow>
     (of_char c :: nat) \<in> {48,49,50,51,52,53,54,55,56,57,97,98,99,100,101,102,65,66,67,68,69,70}"
  unfolding is_hex_digit_def by (simp add: char_eq_nat [of c])

lemma in_hex_class:
  "in_class [(CHR ''0'', CHR ''9''), (CHR ''A'', CHR ''F''), (CHR ''a'', CHR ''f'')] c
     \<longleftrightarrow> is_hex_digit c"
proof -
  define n :: nat where "n = of_char c"
  have a: "in_class [(CHR ''0'', CHR ''9''), (CHR ''A'', CHR ''F''), (CHR ''a'', CHR ''f'')] c
      \<longleftrightarrow> (48 \<le> n \<and> n \<le> 57) \<or> (65 \<le> n \<and> n \<le> 70) \<or> (97 \<le> n \<and> n \<le> 102)"
    by (simp add: less_eq_char_def n_def)
  show ?thesis
    unfolding a is_hex_digit_nat n_def [symmetric] by (rule hex_range_nat)
qed

lemma iterate_class:
  "iterate n (matches (Class rs)) s =
     (if n \<le> length s \<and> (\<forall>c \<in> set (take n s). in_class rs c) then [drop n s] else [])"
proof (induction n arbitrary: s)
  case 0
  then show ?case by simp
next
  case (Suc n)
  show ?case
  proof (cases s)
    case Nil
    then show ?thesis by simp
  next
    case (Cons x xs)
    show ?thesis
    proof (cases "in_class rs x")
      case True
      then show ?thesis using Cons Suc.IH [of xs] by simp
    next
      case False
      then show ?thesis using Cons by simp
    qed
  qed
qed

lemma iterate_hex:
  "iterate n (matches hex_class) s =
     (if n \<le> length s \<and> (\<forall>c \<in> set (take n s). is_hex_digit c) then [drop n s] else [])"
  unfolding hex_class_def by (simp only: iterate_class in_hex_class)

lemma matches_hex:
  "matches (Times n hex_class) s =
     (if n \<le> length s \<and> (\<forall>c \<in> set (take n s). is_hex_digit c) then [drop n s] else [])"
  by (simp only: matches.simps iterate_hex)

lemma matches_Lit_Seq:
  "matches (Seq (Lit c) r) s =
     (case s of [] \<Rightarrow> [] | x # xs \<Rightarrow> if x = c then matches r xs else [])"
  by (cases s) simp_all

lemma isValidHexColor_iff:
  "isValidHexColor s \<longleftrightarrow>
     length s = 7 \<and> hd s = CHR ''#'' \<and> (\<forall>c \<in> set (tl s). is_hex_digit c)"
proof (cases s)
  case Nil
  then show ?thesis by (simp add: isValidHexColor_def RegExp_test_def)
next
  case (Cons x xs)
  then show ?thesis
    unfolding isValidHexColor_def RegExp_test_def matches_Lit_Seq matches_hex
    by auto
qed

text \<open>
  Claim C4. \<open>isValidHexColor s\<close> is true exactly when \<open>s\<close> is \<open>#\<close> followed by six
  hexadecimal digits (seven characters in all); a string of any other length, such as
  the 3-digit and the 8-digit forms, is rejected.
\<close>

theorem isValidHexColor_exact:
  "(isValidHexColor s \<longleftrightarrow>
      length s = 7 \<and> hd s = CHR ''#'' \<and> (\<forall>c \<in> set (tl s). is_hex_digit c))
   \<and> (length s = 4 \<or> length s = 9 \<longrightarrow> \<not> isValidHexColor s)"
  using isValidHexColor_iff [of s] by auto

theorem isValidHexColor_exact_witness:
  "isValidHexColor ''#172038'' \<and> isValidHexColor ''#A4DDdb''
   \<and> \<not> isValidHexColor ''#fff'' \<and> \<not> isValidHexColor ''#17203800''
   \<and> \<not> isValidHexColor ''#17203g'' \<and> \<not> isValidHexColor ''172038''"
  using isValidHexColor_exact [of "''#172038''"] isValidHexColor_exact [of "''#A4DDdb''"]
    isValidHexColor_exact [of "''#fff''"] isValidHexColor_exact [of "''#17203800''"]
    isValidHexColor_exact [of "''#17203g''"] isValidHexColor_exact [of "''172038''"]
  by (simp add: is_hex_digit_def)

text \<open>
  The semantic validator's \<open>isValidColor\<close> is another function: it takes the 8-digit
  form as well.
\<close>

lemma isValidColor_alpha: "isValidColor ''#17203800'' \<and> \<not> isValidColor ''#fff''"
  by (simp add: isValidColor_def RegExp_test_def iterate_hex is_hex_digit_def)

section \<open>Contrast levels\<close>

text \<open>
  Claim C3. For every ratio \<open>r\<close>, \<open>getContrastLevel r\<close> is \<open>AAA\<close> exactly when
  \<open>r \<ge> 7\<close>, \<open>AA\<close> exactly when \<open>4.5 \<le> r < 7\<close>, \<open>AA Large\<close> exactly when
  \<open>3 \<le> r < 4.5\<close>, and \<open>Fail\<close> exactly when \<open>r < 3\<close>.
\<close>

theorem getContrastLevel_thresholds:
  "(getContrastLevel (Num r) = ''AAA'' \<longleftrightarrow> r \<ge> 7)
   \<and> (getContrastLevel (Num r) = ''AA'' \<longleftrightarrow> 4.5 \<le> r \<and> r < 7)
   \<and> (getContrastLevel (Num r) = ''AA Large'' \<longleftrightarrow> 3 \<le> r \<and> r < 4.5)
   \<and> (getContrastLevel (Num r) = ''Fail'' \<longleftrightarrow> r < 3)"
  by (auto simp add: getContrastLevel_def js_ge_def)

theorem getContrastLevel_thresholds_witness:
  "getContrastLevel (Num 21) = ''AAA'' \<and> getContrastLevel (Num 7) = ''AAA''
   \<and> getContrastLevel (Num 4.5) = ''AA'' \<and> getContrastLevel (Num 3) = ''AA Large''
   \<and> getContrastLevel (Num 2.99) = ''Fail''"
  using getContrastLevel_thresholds [of 21] getContrastLevel_thresholds [of 7]
    getContrastLevel_thresholds [of "4.5"] getContrastLevel_thresholds [of 3]
    getContrastLevel_thresholds [of "2.99"]
  by simp

text \<open>
  A ratio that is not a number (the luminance of a string that is no hex colour) fails
  every comparison and is reported as \<open>Fail\<close>.
\<close>

lemma getContrastLevel_NaN: "getContrastLevel NaN = ''Fail''"
  by (simp add: getContrastLevel_def js_ge_def)


section \<open>Luminance and contrast\<close>

lemma digit16_hex: "is_hex_digit c \<Longrightarrow> digit16 c = Some (hex_digit_value c)"
  unfolding is_hex_digit_def
  by (auto simp add: digit16_def hex_digit_value_def less_eq_char_def)

lemma hex_digit_value_le: "hex_digit_value c \<le> 15"
  unfolding hex_digit_value_def by simp

lemma hex_not_special:
  assumes "is_hex_digit c"
  shows "\<not> is_white_space c" "c \<noteq> CHR ''+''" "c \<noteq> CHR ''-''" "c \<noteq> CHR ''x''" "c \<noteq> CHR ''X''"
  using assms unfolding is_hex_digit_nat is_white_space_def by auto

lemma parseInt16_byte:
  assumes "is_hex_digit a" "is_hex_digit b"
  shows "parseInt16 [a, b] = Num (real (16 * hex_digit_value a + hex_digit_value b))"
  using assms hex_not_special [OF assms(1)] hex_not_special [OF assms(2)]
  by (simp add: parseInt16_def Let_def digit16_hex value16_def)


lemma linear_expr:
  "(if js_le (js_div (Num (real c)) (Num 255)) (Num 0.03928)
    then js_div (js_div (Num (real c)) (Num 255)) (Num 12.92)
    else Math_pow (js_div (js_add (js_div (Num (real c)) (Num 255)) (Num 0.055)) (Num 1.055)) 2.4)
   = Num (spec_linear c)"
  by (simp add: spec_linear_def Let_def)

lemma length7:
  assumes "length s = 7"
  obtains a b c d e f g where "s = [a, b, c, d, e, f, g]"
proof -
  from assms obtain a s1 where 1: "s = a # s1" "length s1 = 6" by (cases s) auto
  then obtain b s2 where 2: "s1 = b # s2" "length s2 = 5" by (cases s1) auto
  then obtain c s3 where 3: "s2 = c # s3" "length s3 = 4" by (cases s2) auto
  then obtain d s4 where 4: "s3 = d # s4" "length s4 = 3" by (cases s3) auto
  then obtain e s5 where 5: "s4 = e # s5" "length s5 = 2" by (cases s4) auto
  then obtain f s6 where 6: "s5 = f # s6" "length s6 = 1" by (cases s5) auto
  then obtain g where 7: "s6 = [g]" by (cases s6) auto
  from 1 2 3 4 5 6 7 that show thesis by simp
qed

lemma valid_hex_shape:
  assumes "isValidHexColor s"
  obtains a b c d e f where "s = [CHR ''#'', a, b, c, d, e, f]"
    "is_hex_digit a" "is_hex_digit b" "is_hex_digit c" "is_hex_digit d" "is_hex_digit e" "is_hex_digit f"
proof -
  from assms have l: "length s = 7" and h: "hd s = CHR ''#''" and d: "\<forall>c \<in> set (tl s). is_hex_digit c"
    by (simp_all add: isValidHexColor_iff)
  from l obtain x a b c d e f where s: "s = [x, a, b, c, d, e, f]" by (rule length7)
  with h d that show thesis by simp
qed

lemma calculateLuminance_valid:
  assumes "isValidHexColor s"
  shows "calculateLuminance s = Num (spec_luminance (channel s 1) (channel s 3) (channel s 5))"
proof -
  from assms obtain a b c d e f where s: "s = [CHR ''#'', a, b, c, d, e, f]"
    and h: "is_hex_digit a" "is_hex_digit b" "is_hex_digit c" "is_hex_digit d" "is_hex_digit e" "is_hex_digit f"
    by (rule valid_hex_shape)
  have sl: "String_slice s 1 3 = [a, b]" "String_slice s 3 5 = [c, d]" "String_slice s 5 7 = [e, f]"
    by (simp_all add: s String_slice_def)
  have ch: "channel s 1 = 16 * hex_digit_value a + hex_digit_value b"
     "channel s 3 = 16 * hex_digit_value c + hex_digit_value d"
     "channel s 5 = 16 * hex_digit_value e + hex_digit_value f"
    by (simp_all add: s channel_def numeral_3_eq_3 eval_nat_numeral)
  show ?thesis
    unfolding calculateLuminance_def sl Let_def parseInt16_byte [OF h(1,2)]
      parseInt16_byte [OF h(3,4)] parseInt16_byte [OF h(5,6)] linear_expr ch spec_luminance_def
    by simp
qed


lemma validator_calculateLuminance_eq:
  "validator_calculateLuminance s = calculateLuminance (String_slice s 0 7)"
  unfolding validator_calculateLuminance_def calculateLuminance_def Let_def by (rule refl)

lemma slice_whole: "length s = 7 \<Longrightarrow> String_slice s 0 7 = s"
  by (simp add: String_slice_def)

lemma spec_linear_bounds:
  assumes "c \<le> 255"
  shows "0 \<le> spec_linear c \<and> spec_linear c \<le> 1"
proof (cases "real c / 255 \<le> 0.03928")
  case True
  then show ?thesis by (simp add: spec_linear_def)
next
  case False
  define x where "x = (real c / 255 + 0.055) / 1.055"
  from assms have "real c / 255 \<le> 1" by simp
  then have x: "0 \<le> x" "x \<le> 1" by (simp_all add: x_def)
  have "x powr 2.4 \<le> 1" using x by (intro powr_le1) simp_all
  moreover have "0 \<le> x powr 2.4" by simp
  ultimately show ?thesis using False by (simp add: spec_linear_def x_def)
qed

lemma channel_le: "channel s i \<le> 255"
  using hex_digit_value_le [of "s ! i"] hex_digit_value_le [of "s ! Suc i"]
  by (simp add: channel_def)

lemma spec_luminance_bounds:
  assumes "R \<le> 255" "G \<le> 255" "B \<le> 255"
  shows "0 \<le> spec_luminance R G B \<and> spec_luminance R G B \<le> 1"
  using spec_linear_bounds [OF assms(1)] spec_linear_bounds [OF assms(2)]
    spec_linear_bounds [OF assms(3)]
  by (simp add: spec_luminance_def)

lemma spec_contrast_bounds:
  assumes "0 \<le> L1" "L1 \<le> 1" "0 \<le> L2" "L2 \<le> 1"
  shows "1 \<le> spec_contrast L1 L2 \<and> spec_contrast L1 L2 \<le> 21"
proof -
  have d: "0 < min L1 L2 + 0.05" using assms by simp
  have "min L1 L2 + 0.05 \<le> max L1 L2 + 0.05" by simp
  then have lo: "1 \<le> spec_contrast L1 L2"
    unfolding spec_contrast_def using d by (simp add: le_divide_eq)
  have "max L1 L2 + 0.05 \<le> 21 * (min L1 L2 + 0.05)" using assms by (simp add: max_def min_def)
  then have hi: "spec_contrast L1 L2 \<le> 21"
    unfolding spec_contrast_def using d by (simp add: divide_le_eq)
  from lo hi show ?thesis by simp
qed

lemma digit16_le: "digit16 d = Some v \<Longrightarrow> v \<le> 15"
  by (auto simp add: digit16_def less_eq_char_def split: if_splits)

lemma value16_short:
  assumes "length z \<le> 1" "\<forall>d \<in> set z. digit16 d \<noteq> None"
  shows "value16 z \<le> 15"
proof (cases z)
  case Nil
  then show ?thesis by (simp add: value16_def)
next
  case (Cons d ds)
  with assms have ds: "ds = []" and "digit16 d \<noteq> None" by simp_all
  then obtain v where "digit16 d = Some v" by auto
  with digit16_le [of d v] Cons ds show ?thesis by (simp add: value16_def)
qed

lemma parseInt16_short:
  assumes "length s \<le> 2"
  shows "parseInt16 s = NaN \<or> (\<exists>v. parseInt16 s = Num v \<and> - 15 \<le> v)"
proof -
  define s1 where "s1 = dropWhile is_white_space s"
  have l1: "length s1 \<le> 2"
    using assms length_dropWhile_le [of is_white_space s] by (simp add: s1_def)
  show ?thesis
  proof (cases "\<exists>rest. s1 = CHR ''-'' # rest")
    case True
    then obtain rest where r: "s1 = CHR ''-'' # rest" by blast
    with l1 have lr: "length rest \<le> 1" by simp
    then have nx: "take 2 rest \<noteq> ''0x''" "take 2 rest \<noteq> ''0X''"
      by (cases rest; simp)+
    define z where "z = takeWhile (\<lambda>c. digit16 c \<noteq> None) rest"
    have "length z \<le> 1" using lr length_takeWhile_le [of _ rest] unfolding z_def
      by (meson le_trans)
    moreover have "\<forall>d \<in> set z. digit16 d \<noteq> None"
      unfolding z_def by (auto dest: set_takeWhileD)
    ultimately have "value16 z \<le> 15" by (rule value16_short)
    then have "value16 (takeWhile (\<lambda>c. digit16 c \<noteq> None) rest) \<le> 15"
      by (simp add: z_def)
    then show ?thesis
      using r nx by (simp add: parseInt16_def Let_def s1_def [symmetric])
  next
    case False
    then have "\<not> (case s1 of c # _ \<Rightarrow> c = CHR ''-'' | [] \<Rightarrow> False)"
      by (cases s1) auto
    then show ?thesis
      by (simp add: parseInt16_def Let_def s1_def [symmetric])
  qed
qed

lemma linear_lower:
  assumes "x = NaN \<or> (\<exists>v. x = Num v \<and> - 15 \<le> v)"
  shows "nan_or_at_least (- 0.005)
          (if js_le (js_div x (Num 255)) (Num 0.03928)
           then js_div (js_div x (Num 255)) (Num 12.92)
           else Math_pow (js_div (js_add (js_div x (Num 255)) (Num 0.055)) (Num 1.055)) 2.4)"
proof (cases x)
  case NaN
  then show ?thesis by simp
next
  case (Num v)
  with assms have v: "- 15 \<le> v" by simp
  show ?thesis
  proof (cases "v / 255 \<le> 0.03928")
    case True
    have "- 0.005 \<le> v / 255 / 12.92" using v by simp
    with True Num show ?thesis by simp
  next
    case False
    define b where "b = (v / 255 + 0.055) / 1.055"
    from False have b0: "\<not> b < 0" by (simp add: b_def)
    have e: "js_div (js_add (js_div (Num v) (Num 255)) (Num 0.055)) (Num 1.055) = Num b"
      by (simp add: b_def)
    have c: "js_le (js_div (Num v) (Num 255)) (Num 0.03928) = False"
      using False by simp
    have p: "- 0.005 \<le> b powr 2.4"
      by (rule order_trans [of _ 0]) simp_all
    show ?thesis
      unfolding Num c e by (simp only: if_False Math_pow.simps b0 nan_or_at_least.simps p)
  qed
next
  case Infinity
  with assms show ?thesis by simp
next
  case NegInfinity
  with assms show ?thesis by simp
qed

lemma weighted_lower:
  assumes "nan_or_at_least (- 0.005) a" "nan_or_at_least (- 0.005) b"
    "nan_or_at_least (- 0.005) c"
  shows "nan_or_at_least (- 0.005)
    (js_add (js_add (js_mul (Num 0.2126) a) (js_mul (Num 0.7152) b)) (js_mul (Num 0.0722) c))"
  using assms by (cases a; cases b; cases c) simp_all

lemma calculateLuminance_lower: "nan_or_at_least (- 0.005) (calculateLuminance s)"
proof -
  have l: "length (String_slice s 1 3) \<le> 2" "length (String_slice s 3 5) \<le> 2"
    "length (String_slice s 5 7) \<le> 2"
    by (simp_all add: String_slice_def)
  show ?thesis
    unfolding calculateLuminance_def Let_def
    by (intro weighted_lower linear_lower parseInt16_short l)
qed

lemma validator_calculateLuminance_lower:
  "nan_or_at_least (- 0.005) (validator_calculateLuminance s)"
  unfolding validator_calculateLuminance_eq by (rule calculateLuminance_lower)

lemma divisor_positive:
  assumes "nan_or_at_least (- 0.005) a" "nan_or_at_least (- 0.005) b"
  shows "nan_or_at_least 0.045 (js_add (Math_min a b) (Num 0.05))"
  using assms by (cases a; cases b) simp_all

text \<open>
  The divisor of every contrast ratio the scripts compute, whatever the two strings are,
  is \<open>NaN\<close> or at least 0.045: the division never meets zero.
\<close>

lemma contrast_divisor_positive:
  "nan_or_at_least 0.045
     (js_add (Math_min (validator_calculateLuminance c1) (validator_calculateLuminance c2))
        (Num 0.05))"
  "nan_or_at_least 0.045
     (js_add (Math_min (calculateLuminance c1) (calculateLuminance c2)) (Num 0.05))"
  by (intro divisor_positive validator_calculateLuminance_lower calculateLuminance_lower)+

lemma Math_max_commute: "Math_max a b = Math_max b a"
  by (cases a; cases b) (simp_all add: max.commute)

lemma Math_min_commute: "Math_min a b = Math_min b a"
  by (cases a; cases b) (simp_all add: min.commute)

lemma contrast_expr:
  assumes "- 0.005 \<le> L1" "- 0.005 \<le> L2"
  shows "js_div (js_add (Math_max (Num L1) (Num L2)) (Num 0.05))
                (js_add (Math_min (Num L1) (Num L2)) (Num 0.05)) = Num (spec_contrast L1 L2)"
proof -
  have "min L1 L2 + 0.05 \<noteq> 0" using assms by (simp add: min_def)
  then show ?thesis by (simp add: spec_contrast_def)
qed

lemma Num_lower: "nan_or_at_least lo x \<Longrightarrow> x = Num L \<Longrightarrow> lo \<le> L"
  by simp

lemma white_black:
  "isValidHexColor ''#ffffff''" "isValidHexColor ''#000000''"
  "calculateLuminance ''#ffffff'' = Num 1" "calculateLuminance ''#000000'' = Num 0"
  "validator_calculateLuminance ''#ffffff'' = Num 1"
  "validator_calculateLuminance ''#000000'' = Num 0"
proof -
  show w: "isValidHexColor ''#ffffff''" and b: "isValidHexColor ''#000000''"
    by (simp_all add: isValidHexColor_iff is_hex_digit_def)
  have cw: "channel ''#ffffff'' 1 = 255" "channel ''#ffffff'' 3 = 255" "channel ''#ffffff'' 5 = 255"
    and cb: "channel ''#000000'' 1 = 0" "channel ''#000000'' 3 = 0" "channel ''#000000'' 5 = 0"
    by (simp_all add: channel_def hex_digit_value_def eval_nat_numeral)
  have l: "spec_luminance 255 255 255 = 1" "spec_luminance 0 0 0 = 0"
    by (simp_all add: spec_luminance_def spec_linear_def)
  show "calculateLuminance ''#ffffff'' = Num 1" "calculateLuminance ''#000000'' = Num 0"
    using calculateLuminance_valid [OF w] calculateLuminance_valid [OF b]
    by (simp_all only: cw cb l)
  then show "validator_calculateLuminance ''#ffffff'' = Num 1"
    "validator_calculateLuminance ''#000000'' = Num 0"
    by (simp_all add: validator_calculateLuminance_eq slice_whole)
qed

text \<open>
  Claim C1. For every hex colour \<open>#RRGGBB\<close>, \<open>calculateLuminance\<close> (both copies of it)
  returns the relative luminance of the specification, \<open>0.2126 R + 0.7152 G + 0.0722 B\<close>
  over the linearised channels, where the channels are the values of the three pairs of
  hexadecimal digits.
\<close>

theorem calculateLuminance_w3c:
  assumes "isValidHexColor s"
  shows "calculateLuminance s = Num (spec_luminance (channel s 1) (channel s 3) (channel s 5))
       \<and> validator_calculateLuminance s
           = Num (spec_luminance (channel s 1) (channel s 3) (channel s 5))"
proof -
  from assms have "length s = 7" by (simp add: isValidHexColor_iff)
  then have "validator_calculateLuminance s = calculateLuminance s"
    by (simp add: validator_calculateLuminance_eq slice_whole)
  with calculateLuminance_valid [OF assms] show ?thesis by simp
qed

theorem calculateLuminance_w3c_witness:
  "isValidHexColor ''#ffffff''
   \<and> calculateLuminance ''#ffffff'' = Num (spec_luminance 255 255 255)
   \<and> validator_calculateLuminance ''#ffffff'' = Num (spec_luminance 255 255 255)"
proof -
  have c: "channel ''#ffffff'' 1 = 255" "channel ''#ffffff'' 3 = 255" "channel ''#ffffff'' 5 = 255"
    by (simp_all add: channel_def hex_digit_value_def eval_nat_numeral)
  from calculateLuminance_w3c [OF white_black(1)] white_black(1) show ?thesis
    by (simp only: c simp_thms)
qed

text \<open>
  Claim C2. For two colours whose luminances are \<open>L1\<close> and \<open>L2\<close>, the ratio that
  \<open>calculateContrastRatio\<close> returns, and the one the expression written in place in
  \<open>analyzeContrast\<close> and \<open>runFinalTest\<close> evaluates to, is
  \<open>(max L1 L2 + 0.05) / (min L1 L2 + 0.05)\<close>.
\<close>

theorem contrast_ratio_formula:
  "(validator_calculateLuminance c1 = Num L1 \<and> validator_calculateLuminance c2 = Num L2
      \<longrightarrow> calculateContrastRatio c1 c2 = Num (spec_contrast L1 L2))
   \<and> (calculateLuminance c1 = Num L1 \<and> calculateLuminance c2 = Num L2
      \<longrightarrow> inline_contrast (calculateLuminance c1) (calculateLuminance c2)
            = Num (spec_contrast L1 L2))"
proof (intro conjI impI)
  assume a: "validator_calculateLuminance c1 = Num L1 \<and> validator_calculateLuminance c2 = Num L2"
  then have "- 0.005 \<le> L1" "- 0.005 \<le> L2"
    using validator_calculateLuminance_lower [of c1] validator_calculateLuminance_lower [of c2]
    by simp_all
  then show "calculateContrastRatio c1 c2 = Num (spec_contrast L1 L2)"
    using a by (simp only: calculateContrastRatio_def Let_def contrast_expr)
next
  assume a: "calculateLuminance c1 = Num L1 \<and> calculateLuminance c2 = Num L2"
  then have "- 0.005 \<le> L1" "- 0.005 \<le> L2"
    using calculateLuminance_lower [of c1] calculateLuminance_lower [of c2]
    by simp_all
  then show "inline_contrast (calculateLuminance c1) (calculateLuminance c2)
      = Num (spec_contrast L1 L2)"
    using a by (simp only: inline_contrast_def contrast_expr)
qed

theorem contrast_ratio_formula_witness:
  "validator_calculateLuminance ''#ffffff'' = Num 1
   \<and> validator_calculateLuminance ''#000000'' = Num 0
   \<and> calculateContrastRatio ''#ffffff'' ''#000000'' = Num 21
   \<and> inline_contrast (calculateLuminance ''#ffffff'') (calculateLuminance ''#000000'') = Num 21"
proof -
  have s: "spec_contrast 1 0 = 21" by (simp add: spec_contrast_def)
  from contrast_ratio_formula [of "''#ffffff''" 1 "''#000000''" 0] white_black show ?thesis
    by (simp only: s simp_thms)
qed

text \<open>
  Claim C7. The contrast ratio is symmetric: \<open>calculateContrastRatio c1 c2\<close> and
  \<open>calculateContrastRatio c2 c1\<close> are the same number.
\<close>

theorem calculateContrastRatio_symmetric:
  "calculateContrastRatio c1 c2 = calculateContrastRatio c2 c1"
  unfolding calculateContrastRatio_def Let_def
  by (simp only: Math_max_commute [of "validator_calculateLuminance c1"]
      Math_min_commute [of "validator_calculateLuminance c1"])

theorem calculateContrastRatio_symmetric_witness:
  "calculateContrastRatio ''#ebede9'' ''#090a14'' = calculateContrastRatio ''#090a14'' ''#ebede9''"
  by (rule calculateContrastRatio_symmetric)

text \<open>
  Claim C8. For two valid 6-digit hex colours the luminances are numbers in \<open>[0, 1]\<close>,
  the divisor \<open>min L1 L2 + 0.05\<close> is positive, and the contrast ratio is a number in
  \<open>[1, 21]\<close>.
\<close>

theorem luminance_and_contrast_range:
  assumes "isValidHexColor c1" "isValidHexColor c2"
  shows "\<exists>L1 L2 r.
      calculateLuminance c1 = Num L1 \<and> validator_calculateLuminance c1 = Num L1
      \<and> calculateLuminance c2 = Num L2 \<and> validator_calculateLuminance c2 = Num L2
      \<and> 0 \<le> L1 \<and> L1 \<le> 1 \<and> 0 \<le> L2 \<and> L2 \<le> 1
      \<and> js_add (Math_min (Num L1) (Num L2)) (Num 0.05) = Num (min L1 L2 + 0.05)
      \<and> 0 < min L1 L2 + 0.05
      \<and> calculateContrastRatio c1 c2 = Num r
      \<and> inline_contrast (calculateLuminance c1) (calculateLuminance c2) = Num r
      \<and> 1 \<le> r \<and> r \<le> 21"
proof -
  define L1 where "L1 = spec_luminance (channel c1 1) (channel c1 3) (channel c1 5)"
  define L2 where "L2 = spec_luminance (channel c2 1) (channel c2 3) (channel c2 5)"
  have c1: "calculateLuminance c1 = Num L1" and c2: "calculateLuminance c2 = Num L2"
    using calculateLuminance_valid assms by (simp_all add: L1_def L2_def)
  from assms have "length c1 = 7" "length c2 = 7" by (simp_all add: isValidHexColor_iff)
  then have v1: "validator_calculateLuminance c1 = Num L1"
    and v2: "validator_calculateLuminance c2 = Num L2"
    using c1 c2 by (simp_all add: validator_calculateLuminance_eq slice_whole)
  have b1: "0 \<le> L1 \<and> L1 \<le> 1" unfolding L1_def
    by (intro spec_luminance_bounds channel_le)
  have b2: "0 \<le> L2 \<and> L2 \<le> 1" unfolding L2_def
    by (intro spec_luminance_bounds channel_le)
  have lo: "- 0.005 \<le> L1" "- 0.005 \<le> L2" using b1 b2 by simp_all
  have r1: "calculateContrastRatio c1 c2 = Num (spec_contrast L1 L2)"
    by (simp only: calculateContrastRatio_def Let_def v1 v2 contrast_expr [OF lo])
  have r2: "inline_contrast (calculateLuminance c1) (calculateLuminance c2)
      = Num (spec_contrast L1 L2)"
    by (simp only: inline_contrast_def c1 c2 contrast_expr [OF lo])
  have rb: "1 \<le> spec_contrast L1 L2 \<and> spec_contrast L1 L2 \<le> 21"
    using b1 b2 by (intro spec_contrast_bounds) simp_all
  have d: "0 < min L1 L2 + 0.05" using b1 b2 by (simp add: min_def)
  have m: "js_add (Math_min (Num L1) (Num L2)) (Num 0.05) = Num (min L1 L2 + 0.05)" by simp
  from c1 c2 v1 v2 b1 b2 r1 r2 rb d m show ?thesis by blast
qed

theorem luminance_and_contrast_range_witness:
  "isValidHexColor ''#ffffff'' \<and> isValidHexColor ''#000000''
   \<and> (\<exists>L1 L2 r.
      calculateLuminance ''#ffffff'' = Num L1 \<and> validator_calculateLuminance ''#ffffff'' = Num L1
      \<and> calculateLuminance ''#000000'' = Num L2 \<and> validator_calculateLuminance ''#000000'' = Num L2
      \<and> 0 \<le> L1 \<and> L1 \<le> 1 \<and> 0 \<le> L2 \<and> L2 \<le> 1
      \<and> js_add (Math_min (Num L1) (Num L2)) (Num 0.05) = Num (min L1 L2 + 0.05)
      \<and> 0 < min L1 L2 + 0.05
      \<and> calculateContrastRatio ''#ffffff'' ''#000000'' = Num r
      \<and> inline_contrast (calculateLuminance ''#ffffff'') (calculateLuminance ''#000000'') = Num r
      \<and> 1 \<le> r \<and> r \<le> 21)"
  using luminance_and_contrast_range [OF white_black(1) white_black(2)] white_black(1,2)
  by (intro conjI)


section \<open>Facts about \<open>testPathSeparators\<close>\<close>

lemma truthy_path: "Some (JString p) = m \<Longrightarrow> p \<noteq> [] \<Longrightarrow> \<not> truthy m \<Longrightarrow> False"
  by auto

lemma check_theme_no_throw:
  assumes "check_theme E t st = (None, st')"
  shows "(passed st' \<longleftrightarrow> passed st \<and> (\<forall>p \<in> set (entry_paths t). path_ok E p))
       \<and> (passed st' \<longrightarrow> st' = st)
       \<and> ((issues st' = []) = (issues st = [] \<and> (\<forall>p \<in> set (entry_paths t). path_ok E p)))"
  using assms unfolding check_theme_def entry_paths_def path_ok_def
  by (cases t)
    (auto simp add: Let_def split: sum.splits if_splits option.splits json.splits
      dest: truthy_path)

lemma check_theme_throw:
  assumes "check_theme E t st = (Some e, st')"
  shows "(passed st' \<longrightarrow> st' = st) \<and> (issues st = [] \<longrightarrow> passed st' \<longrightarrow> issues st' = [])
      \<and> (issues st \<noteq> [] \<longrightarrow> issues st' \<noteq> [])"
  using assms unfolding check_theme_def
  by (cases t) (auto simp add: Let_def split: sum.splits if_splits option.splits json.splits)


lemma forEach_no_throw:
  assumes "forEach (check_theme E) ts st = (None, st')"
  shows "(passed st' \<longleftrightarrow> passed st \<and> (\<forall>p \<in> set (concat (map entry_paths ts)). path_ok E p))
       \<and> ((issues st' = []) = (issues st = [] \<and> (\<forall>p \<in> set (concat (map entry_paths ts)). path_ok E p)))"
  using assms
proof (induction ts arbitrary: st)
  case Nil
  then show ?case by simp
next
  case (Cons t ts)
  obtain x st1 where c: "check_theme E t st = (x, st1)" by (cases "check_theme E t st")
  with Cons.prems have x: "x = None" and r: "forEach (check_theme E) ts st1 = (None, st')"
    by (auto split: option.splits)
  from check_theme_no_throw [OF c [unfolded x]] Cons.IH [OF r] show ?case
    by auto
qed

lemma check_package_no_throw:
  assumes "check_package E pp st = (None, st')"
  shows "\<exists>content pkg. readFileSync E pp = Inr content \<and> JSON_parse E content = Inr pkg
       \<and> (passed st' \<longleftrightarrow> passed st \<and> (\<forall>p \<in> set (package_paths pkg). path_ok E p))
       \<and> ((issues st' = []) = (issues st = [] \<and> (\<forall>p \<in> set (package_paths pkg). path_ok E p)))"
proof -
  from assms obtain content where rd: "readFileSync E pp = Inr content"
    unfolding check_package_def by (auto split: sum.splits)
  from assms rd obtain pkg where pa: "JSON_parse E content = Inr pkg"
    unfolding check_package_def by (auto split: sum.splits)
  from assms rd pa obtain c where c: "get (Some pkg) ''contributes'' = Inr c"
    unfolding check_package_def by (auto split: sum.splits)
  show ?thesis
  proof (cases "truthy c")
    case False
    then have "package_paths pkg = []"
      using c unfolding package_paths_def by (cases pkg) (auto split: option.splits json.splits)
    moreover have "st' = st" using assms rd pa c False unfolding check_package_def by simp
    ultimately show ?thesis using rd pa by simp
  next
    case True
    from assms rd pa c True obtain th where th: "get c ''themes'' = Inr th"
      unfolding check_package_def by (auto split: sum.splits)
    show ?thesis
    proof (cases "truthy th")
      case False
      then have "package_paths pkg = []"
        using c th unfolding package_paths_def
        by (cases pkg) (auto split: option.splits json.splits)
      moreover have "st' = st"
        using assms rd pa c True th False unfolding check_package_def by simp
      ultimately show ?thesis using rd pa by simp
    next
      case tt: True
      from assms rd pa c True th tt obtain ts where ts: "th = Some (JArray ts)"
        and fe: "forEach (check_theme E) ts st = (None, st')"
        unfolding check_package_def by (auto split: option.splits json.splits)
      have "package_paths pkg = concat (map entry_paths ts)"
        using c th ts unfolding package_paths_def
        by (cases pkg; cases c) (auto split: option.splits json.splits)
      with forEach_no_throw [OF fe] rd pa show ?thesis by simp
    qed
  qed
qed

lemma check_theme_file_step:
  "(passed (check_theme_file E f st) \<longleftrightarrow> passed st \<and> existsSync E (path_join E (dirname E) f))
   \<and> ((issues (check_theme_file E f st) = [])
        = (issues st = [] \<and> existsSync E (path_join E (dirname E) f)))"
  by (simp add: check_theme_file_def Let_def)

lemma theme_files_loop:
  "(passed (foldl (\<lambda>s f. check_theme_file E f s) st fs)
      \<longleftrightarrow> passed st \<and> (\<forall>f \<in> set fs. existsSync E (path_join E (dirname E) f)))
   \<and> ((issues (foldl (\<lambda>s f. check_theme_file E f s) st fs) = [])
        = (issues st = [] \<and> (\<forall>f \<in> set fs. existsSync E (path_join E (dirname E) f))))"
proof (induction fs arbitrary: st)
  case Nil
  then show ?case by simp
next
  case (Cons f fs)
  from Cons.IH [of "check_theme_file E f st"] check_theme_file_step [of E f st]
  show ?case by auto
qed

lemma try_no_throw:
  assumes "testPathSeparators_try E \<lparr> passed = True, issues = [] \<rparr> = (None, st')"
  shows "(passed st' \<longleftrightarrow> (\<forall>p \<in> set (listed_paths E). path_ok E p) \<and> files_ok E)
       \<and> ((issues st' = []) = passed st')"
proof (cases "existsSync E (path_join E (dirname E) ''package.json'')")
  case False
  with assms have "st' = foldl (\<lambda>s f. check_theme_file E f s) \<lparr> passed = True, issues = [] \<rparr> themeFiles"
    unfolding testPathSeparators_try_def by (simp add: Let_def)
  moreover from False have "listed_paths E = []" by (simp add: listed_paths_def)
  ultimately show ?thesis
    using theme_files_loop [of E "\<lparr> passed = True, issues = [] \<rparr>" themeFiles]
    by (simp add: files_ok_def)
next
  case True
  obtain x st1 where cp: "check_package E (path_join E (dirname E) ''package.json'')
      \<lparr> passed = True, issues = [] \<rparr> = (x, st1)"
    by (cases "check_package E (path_join E (dirname E) ''package.json'') \<lparr> passed = True, issues = [] \<rparr>")
  with assms True have x: "x = None"
    and st': "st' = foldl (\<lambda>s f. check_theme_file E f s) st1 themeFiles"
    unfolding testPathSeparators_try_def by (auto simp add: Let_def split: option.splits)
  from check_package_no_throw [OF cp [unfolded x]] obtain content pkg where
    rd: "readFileSync E (path_join E (dirname E) ''package.json'') = Inr content"
    and pa: "JSON_parse E content = Inr pkg"
    and p1: "passed st1 \<longleftrightarrow> (\<forall>p \<in> set (package_paths pkg). path_ok E p)"
    and i1: "(issues st1 = []) = (\<forall>p \<in> set (package_paths pkg). path_ok E p)"
    by auto
  have lp: "listed_paths E = package_paths pkg"
    using True rd pa by (simp add: listed_paths_def)
  show ?thesis
    using theme_files_loop [of E st1 themeFiles] p1 i1
    unfolding st' lp files_ok_def by auto
qed

lemma testPathSeparators_passed:
  "passed (testPathSeparators E) \<longleftrightarrow>
     \<not> testPathSeparators_throws E \<and> (\<forall>p \<in> set (listed_paths E). path_ok E p) \<and> files_ok E"
proof -
  obtain x st where t: "testPathSeparators_try E \<lparr> passed = True, issues = [] \<rparr> = (x, st)"
    by (cases "testPathSeparators_try E \<lparr> passed = True, issues = [] \<rparr>")
  show ?thesis
  proof (cases x)
    case None
    with t try_no_throw [of E st] show ?thesis
      by (simp add: testPathSeparators_def testPathSeparators_throws_def)
  next
    case (Some e)
    with t show ?thesis
      by (simp add: testPathSeparators_def testPathSeparators_throws_def)
  qed
qed

lemma testPathSeparators_issues:
  "(issues (testPathSeparators E) = []) = passed (testPathSeparators E)"
proof -
  obtain x st where t: "testPathSeparators_try E \<lparr> passed = True, issues = [] \<rparr> = (x, st)"
    by (cases "testPathSeparators_try E \<lparr> passed = True, issues = [] \<rparr>")
  show ?thesis
  proof (cases x)
    case None
    with t try_no_throw [of E st] show ?thesis
      by (simp add: testPathSeparators_def)
  next
    case (Some e)
    with t show ?thesis
      by (simp add: testPathSeparators_def)
  qed
qed

lemma testPathSeparators_caught:
  assumes "testPathSeparators_throws E"
  shows "\<exists>m. last (issues (testPathSeparators E)) = ''Path separator test failed: '' @ m"
proof -
  obtain x st where t: "testPathSeparators_try E \<lparr> passed = True, issues = [] \<rparr> = (x, st)"
    by (cases "testPathSeparators_try E \<lparr> passed = True, issues = [] \<rparr>")
  with assms obtain e where "x = Some e" by (auto simp add: testPathSeparators_throws_def)
  with t show ?thesis by (simp add: testPathSeparators_def)
qed

lemma no_backslash_no_pair: "backslash \<notin> set p \<Longrightarrow> \<not> String_includes p [backslash, backslash]"
  by (induction p) auto

lemmas tps_defs = listed_paths_def testPathSeparators_def testPathSeparators_try_def
  testPathSeparators_throws_def check_package_def package_paths_def entry_paths_def
  check_theme_def themeFiles_def check_theme_file_def posix_join_def

lemma read_or_parse_failure_throws:
  assumes "existsSync E (path_join E (dirname E) ''package.json'')"
    and "(\<exists>e. readFileSync E (path_join E (dirname E) ''package.json'') = Inl e)
       \<or> (\<exists>content e. readFileSync E (path_join E (dirname E) ''package.json'') = Inr content
             \<and> JSON_parse E content = Inl e)"
  shows "testPathSeparators_throws E"
  using assms
  by (auto simp add: testPathSeparators_throws_def testPathSeparators_try_def check_package_def)

text \<open>
  Claim C6, as the code has it. \<open>testPathSeparators\<close> returns \<open>passed = false\<close>, with an
  issue recorded, whenever a theme path listed in package.json does not resolve to an
  existing file, whenever one of the two expected theme files is not accessible, and
  whenever its \<open>try\<close> block throws, as it does when package.json exists but cannot be
  read or parsed (the last issue is then the one of the \<open>catch\<close> block). When nothing
  throws, no listed path holds a backslash, every listed path resolves to an existing
  file and both expected theme files are accessible, it returns \<open>passed = true\<close> and no
  issue.
\<close>

theorem testPathSeparators_amended:
  "((\<exists>p \<in> set (listed_paths E). \<not> existsSync E (path_resolve E (dirname E) p))
      \<longrightarrow> \<not> passed (testPathSeparators E) \<and> issues (testPathSeparators E) \<noteq> [])
   \<and> ((\<exists>f \<in> set themeFiles. \<not> existsSync E (path_join E (dirname E) f))
      \<longrightarrow> \<not> passed (testPathSeparators E) \<and> issues (testPathSeparators E) \<noteq> [])
   \<and> (testPathSeparators_throws E
      \<longrightarrow> \<not> passed (testPathSeparators E)
          \<and> (\<exists>m. last (issues (testPathSeparators E)) = ''Path separator test failed: '' @ m))
   \<and> (existsSync E (path_join E (dirname E) ''package.json'')
        \<and> ((\<exists>e. readFileSync E (path_join E (dirname E) ''package.json'') = Inl e)
           \<or> (\<exists>content e. readFileSync E (path_join E (dirname E) ''package.json'') = Inr content
                 \<and> JSON_parse E content = Inl e))
      \<longrightarrow> testPathSeparators_throws E)
   \<and> (\<not> testPathSeparators_throws E
        \<and> (\<forall>p \<in> set (listed_paths E).
              backslash \<notin> set p \<and> existsSync E (path_resolve E (dirname E) p))
        \<and> (\<forall>f \<in> set themeFiles. existsSync E (path_join E (dirname E) f))
      \<longrightarrow> passed (testPathSeparators E) \<and> issues (testPathSeparators E) = [])"
proof (intro conjI impI)
  assume "\<exists>p \<in> set (listed_paths E). \<not> existsSync E (path_resolve E (dirname E) p)"
  then have "\<not> (\<forall>p \<in> set (listed_paths E). path_ok E p)" by (auto simp add: path_ok_def)
  then show "\<not> passed (testPathSeparators E)" by (simp add: testPathSeparators_passed)
  then show "issues (testPathSeparators E) \<noteq> []" by (simp add: testPathSeparators_issues)
next
  assume "\<exists>f \<in> set themeFiles. \<not> existsSync E (path_join E (dirname E) f)"
  then have "\<not> files_ok E" by (auto simp add: files_ok_def)
  then show "\<not> passed (testPathSeparators E)" by (simp add: testPathSeparators_passed)
  then show "issues (testPathSeparators E) \<noteq> []" by (simp add: testPathSeparators_issues)
next
  assume t: "testPathSeparators_throws E"
  then show "\<not> passed (testPathSeparators E)" by (simp add: testPathSeparators_passed)
  from t show "\<exists>m. last (issues (testPathSeparators E)) = ''Path separator test failed: '' @ m"
    by (rule testPathSeparators_caught)
next
  assume "existsSync E (path_join E (dirname E) ''package.json'')
        \<and> ((\<exists>e. readFileSync E (path_join E (dirname E) ''package.json'') = Inl e)
           \<or> (\<exists>content e. readFileSync E (path_join E (dirname E) ''package.json'') = Inr content
                 \<and> JSON_parse E content = Inl e))"
  then show "testPathSeparators_throws E"
    using read_or_parse_failure_throws [of E] by blast
next
  assume a: "\<not> testPathSeparators_throws E
        \<and> (\<forall>p \<in> set (listed_paths E).
              backslash \<notin> set p \<and> existsSync E (path_resolve E (dirname E) p))
        \<and> (\<forall>f \<in> set themeFiles. existsSync E (path_join E (dirname E) f))"
  then have "\<forall>p \<in> set (listed_paths E). path_ok E p"
    by (auto simp add: path_ok_def no_backslash_no_pair)
  with a show p: "passed (testPathSeparators E)"
    by (simp add: testPathSeparators_passed files_ok_def)
  then show "issues (testPathSeparators E) = []" by (simp add: testPathSeparators_issues)
qed

theorem testPathSeparators_amended_witness:
  "passed (testPathSeparators good_env) \<and> issues (testPathSeparators good_env) = []
   \<and> \<not> testPathSeparators_throws good_env
   \<and> ''./themes/apollo-dark-color-theme.json'' \<in> set (listed_paths missing_env)
   \<and> \<not> passed (testPathSeparators missing_env) \<and> issues (testPathSeparators missing_env) \<noteq> []
   \<and> testPathSeparators_throws malformed_env
   \<and> \<not> passed (testPathSeparators malformed_env)
   \<and> (\<exists>m. last (issues (testPathSeparators malformed_env)) = ''Path separator test failed: '' @ m)"
proof -
  have g1: "\<not> testPathSeparators_throws good_env"
    by (simp add: tps_defs good_env_def good_package_def)
  have g2: "\<forall>p \<in> set (listed_paths good_env).
      backslash \<notin> set p \<and> existsSync good_env (path_resolve good_env (dirname good_env) p)"
    by (simp add: tps_defs good_env_def good_package_def backslash_def)
  have g3: "\<forall>f \<in> set themeFiles. existsSync good_env (path_join good_env (dirname good_env) f)"
    by (simp add: good_env_def)
  have m1: "''./themes/apollo-dark-color-theme.json'' \<in> set (listed_paths missing_env)"
    by (simp add: tps_defs missing_env_def good_env_def good_package_def)
  have m2: "\<not> existsSync missing_env (path_resolve missing_env (dirname missing_env)
      ''./themes/apollo-dark-color-theme.json'')"
    by (simp add: missing_env_def good_env_def posix_join_def)
  have b1: "existsSync malformed_env (path_join malformed_env (dirname malformed_env) ''package.json'')"
    by (simp add: malformed_env_def)
  have b2: "\<exists>content e. readFileSync malformed_env
        (path_join malformed_env (dirname malformed_env) ''package.json'') = Inr content
      \<and> JSON_parse malformed_env content = Inl e"
    by (simp add: malformed_env_def)
  from testPathSeparators_amended [of good_env] g1 g2 g3
  have G: "passed (testPathSeparators good_env) \<and> issues (testPathSeparators good_env) = []"
    by blast
  from testPathSeparators_amended [of missing_env] m1 m2
  have M: "\<not> passed (testPathSeparators missing_env) \<and> issues (testPathSeparators missing_env) \<noteq> []"
    by blast
  from testPathSeparators_amended [of malformed_env] b1 b2
  have B: "testPathSeparators_throws malformed_env" by blast
  with testPathSeparators_amended [of malformed_env]
  have B2: "\<not> passed (testPathSeparators malformed_env)
      \<and> (\<exists>m. last (issues (testPathSeparators malformed_env)) = ''Path separator test failed: '' @ m)"
    by blast
  from G g1 m1 M B B2 show ?thesis by blast
qed

text \<open>
  The claim as it is worded fails twice. With package.json cut short, no listed path is
  at fault and both theme files are there, yet \<open>passed\<close> is false: the \<open>catch\<close> block sets
  it. And on a Windows machine a listed path written with a backslash goes unnoticed
  when the file exists, because the test looks for two backslashes in a row.
\<close>

theorem testPathSeparators_counterexample:
  "listed_paths malformed_env = []
   \<and> existsSync malformed_env
       (path_join malformed_env (dirname malformed_env) ''themes/apollo-dark-color-theme.json'')
   \<and> existsSync malformed_env
       (path_join malformed_env (dirname malformed_env) ''themes/apollo-light-color-theme.json'')
   \<and> passed (testPathSeparators malformed_env) = False
   \<and> listed_paths windows_env = [windows_path]
   \<and> backslash \<in> set windows_path
   \<and> passed (testPathSeparators windows_env) = True
   \<and> issues (testPathSeparators windows_env) = []"
  by (simp add: tps_defs malformed_env_def windows_env_def windows_package_def windows_path_def
      backslash_def)

section \<open>Facts about the entry points\<close>

lemma try_catch_total:
  assumes "\<And>e. \<exists>v. handler e = Inr v"
  shows "\<exists>v. try_catch body handler = Inr v"
  using assms by (cases body) (simp_all add: try_catch_def)

lemma unreadable_analyze:
  assumes "theme_unreadable E"
  shows "\<exists>e. analyzeContrast_try E = Inl e"
  using assms unfolding theme_unreadable_def analyzeContrast_try_def
  by (auto simp add: bind_def split: sum.splits)

lemma unreadable_validate:
  assumes "theme_unreadable E"
  shows "\<exists>e. validateLightThemeStructure_try E = Inl e"
  using assms unfolding theme_unreadable_def validateLightThemeStructure_try_def
  by (auto simp add: bind_def split: sum.splits)

lemma analyzeContrast_caught:
  "analyzeContrast_try E = Inl e \<Longrightarrow>
     analyzeContrast E
       = Inr \<lparr> stderr = [''Error analyzing contrast: '' @ message e], returned = [] \<rparr>"
  by (simp add: analyzeContrast_def try_catch_def bind_def)

lemma validate_caught:
  "validateLightThemeStructure_try E = Inl e \<Longrightarrow>
     validateLightThemeStructure E
       = Inr \<lparr> stderr = [''Light theme validation failed: '' @ message e], returned = False \<rparr>"
  by (simp add: validateLightThemeStructure_def try_catch_def bind_def)

text \<open>
  Claim C5. Neither entry point lets an exception out: each returns a value, whatever
  the platform does. When the theme file cannot be read or does not parse, and more
  generally whenever anything in the \<open>try\<close> block throws, \<open>analyzeContrast\<close> writes the
  message and returns the empty array, and \<open>validateLightThemeStructure\<close> writes the
  message and returns \<open>false\<close>.
\<close>

theorem entry_points_catch_everything:
  "(\<exists>out. analyzeContrast E = Inr out)
   \<and> (\<exists>out. validateLightThemeStructure E = Inr out)
   \<and> (theme_unreadable E \<longrightarrow>
        (\<exists>m. analyzeContrast E
           = Inr \<lparr> stderr = [''Error analyzing contrast: '' @ m], returned = [] \<rparr>)
      \<and> (\<exists>m. validateLightThemeStructure E
           = Inr \<lparr> stderr = [''Light theme validation failed: '' @ m], returned = False \<rparr>))
   \<and> (\<forall>e. analyzeContrast_try E = Inl e \<longrightarrow>
        analyzeContrast E
          = Inr \<lparr> stderr = [''Error analyzing contrast: '' @ message e], returned = [] \<rparr>)
   \<and> (\<forall>e. validateLightThemeStructure_try E = Inl e \<longrightarrow>
        validateLightThemeStructure E
          = Inr \<lparr> stderr = [''Light theme validation failed: '' @ message e],
                  returned = False \<rparr>)"
proof (intro conjI impI allI)
  show "\<exists>out. analyzeContrast E = Inr out"
    unfolding analyzeContrast_def by (rule try_catch_total) simp
  show "\<exists>out. validateLightThemeStructure E = Inr out"
    unfolding validateLightThemeStructure_def by (rule try_catch_total) simp
next
  assume u: "theme_unreadable E"
  from unreadable_analyze [OF u] analyzeContrast_caught [of E]
  show "\<exists>m. analyzeContrast E
      = Inr \<lparr> stderr = [''Error analyzing contrast: '' @ m], returned = [] \<rparr>"
    by blast
  from unreadable_validate [OF u] validate_caught [of E]
  show "\<exists>m. validateLightThemeStructure E
      = Inr \<lparr> stderr = [''Light theme validation failed: '' @ m], returned = False \<rparr>"
    by blast
next
  fix e assume "analyzeContrast_try E = Inl e"
  then show "analyzeContrast E
      = Inr \<lparr> stderr = [''Error analyzing contrast: '' @ message e], returned = [] \<rparr>"
    by (rule analyzeContrast_caught)
next
  fix e assume "validateLightThemeStructure_try E = Inl e"
  then show "validateLightThemeStructure E
      = Inr \<lparr> stderr = [''Light theme validation failed: '' @ message e], returned = False \<rparr>"
    by (rule validate_caught)
qed

theorem entry_points_catch_everything_witness:
  "theme_unreadable no_theme_env
   \<and> (\<exists>m. analyzeContrast no_theme_env
         = Inr \<lparr> stderr = [''Error analyzing contrast: '' @ m], returned = [] \<rparr>)
   \<and> (\<exists>m. validateLightThemeStructure no_theme_env
         = Inr \<lparr> stderr = [''Light theme validation failed: '' @ m], returned = False \<rparr>)
   \<and> theme_unreadable malformed_env
   \<and> (\<exists>m. analyzeContrast malformed_env
         = Inr \<lparr> stderr = [''Error analyzing contrast: '' @ m], returned = [] \<rparr>)
   \<and> (\<exists>m. validateLightThemeStructure malformed_env
         = Inr \<lparr> stderr = [''Light theme validation failed: '' @ m], returned = False \<rparr>)"
proof -
  have u: "theme_unreadable no_theme_env"
    by (simp add: theme_unreadable_def no_theme_env_def good_env_def)
  have v: "theme_unreadable malformed_env"
    by (simp add: theme_unreadable_def malformed_env_def)
  from entry_points_catch_everything [of no_theme_env] u
    entry_points_catch_everything [of malformed_env] v
  show ?thesis by blast
qed

text \<open>The entry points at work on the small theme.\<close>

lemma small_example:
  "analyzeContrast small_env =
     Inr \<lparr> stderr = [],
           returned = [\<lparr> color = Some (JString ''#ffffff''), name = Some (JString ''Comment''),
                         scope = Some (JString ''comment''), luminance = Num 1, contrast = Num 1,
                         level = ''Fail'' \<rparr>] \<rparr>"
  "validateLightThemeStructure small_env = Inr \<lparr> stderr = [], returned = True \<rparr>"
proof -
  show "analyzeContrast small_env =
     Inr \<lparr> stderr = [],
           returned = [\<lparr> color = Some (JString ''#ffffff''), name = Some (JString ''Comment''),
                         scope = Some (JString ''comment''), luminance = Num 1, contrast = Num 1,
                         level = ''Fail'' \<rparr>] \<rparr>"
    by (simp add: analyzeContrast_def analyzeContrast_try_def try_catch_def bind_def small_env_def
        good_env_def small_theme_def calculateLuminance_value_def white_black(3,4) to_text_def
        analyze_rule_def inline_contrast_def getContrastLevel_def js_ge_def
        print_low_contrast_def print_color_and_name_def Let_def)
  show "validateLightThemeStructure small_env = Inr \<lparr> stderr = [], returned = True \<rparr>"
    by (simp add: validateLightThemeStructure_def validateLightThemeStructure_try_def try_catch_def
        bind_def small_env_def good_env_def small_theme_def to_text_def hasOwnProperty_callable_def
        essentialScopes_def check_scope_def isLightColor_def isDarkColor_def slice_text_def
        String_slice_def parseInt16_def is_white_space_def digit16_def value16_def
        less_eq_char_def Let_def)
qed

end
